theory Spec2Isabelle
  imports Main
begin

section \<open>Python values and exceptions\<close>

text \<open>
  The program handles JSON documents as Python values. A dict is an association list
  in insertion order, looked up by key. A float is kept as the two things this program
  can observe of it: whether it is non-zero (its truthiness) and its \<open>str()\<close> text.
\<close>

datatype json =
    JNull
  | JBool bool
  | JInt int
  | JFloat bool string
  | JStr string
  | JList "json list"
  | JDict "(string \<times> json) list"

text \<open>
  The exceptions the program can meet. \<open>RequestException\<close> stands for
  \<open>requests.exceptions.RequestException\<close> and all its subclasses (connection errors,
  timeouts, \<open>HTTPError\<close>); it carries \<open>str(e)\<close>. \<open>OtherError\<close> is any exception
  outside that family.
\<close>

datatype py_exn =
    RequestException string
  | AttributeError
  | TypeError
  | KeyError
  | IndexError
  | OtherError string

definition ebind :: "py_exn + 'a \<Rightarrow> ('a \<Rightarrow> py_exn + 'b) \<Rightarrow> py_exn + 'b" where
  "ebind m f = (case m of Inl e \<Rightarrow> Inl e | Inr x \<Rightarrow> f x)"

text \<open>\<open>d.get(key, default)\<close>: only a dict has the method.\<close>

definition dict_get :: "(string \<times> json) list \<Rightarrow> string \<Rightarrow> json \<Rightarrow> json" where
  "dict_get kvs k d = (case map_of kvs k of None \<Rightarrow> d | Some v \<Rightarrow> v)"

fun py_get :: "json \<Rightarrow> string \<Rightarrow> json \<Rightarrow> py_exn + json" where
  "py_get (JDict kvs) k d = Inr (dict_get kvs k d)"
| "py_get _ k d = Inl AttributeError"

text \<open>Iteration (\<open>for i in v\<close>): a list gives its items, a string its characters, a
  dict its keys; anything else raises.\<close>

fun py_iter :: "json \<Rightarrow> py_exn + json list" where
  "py_iter (JList xs) = Inr xs"
| "py_iter (JStr s) = Inr (map (\<lambda>c. JStr [c]) s)"
| "py_iter (JDict kvs) = Inr (map JStr (remdups (map fst kvs)))"
| "py_iter _ = Inl TypeError"

text \<open>\<open>len(v)\<close>.\<close>

fun py_len :: "json \<Rightarrow> py_exn + nat" where
  "py_len (JList xs) = Inr (length xs)"
| "py_len (JStr s) = Inr (length s)"
| "py_len (JDict kvs) = Inr (length (remdups (map fst kvs)))"
| "py_len _ = Inl TypeError"

text \<open>Truthiness (\<open>if v\<close>, \<open>not v\<close>).\<close>

fun truthy :: "json \<Rightarrow> bool" where
  "truthy JNull = False"
| "truthy (JBool b) = b"
| "truthy (JInt i) = (i \<noteq> 0)"
| "truthy (JFloat nz s) = nz"
| "truthy (JStr s) = (s \<noteq> [])"
| "truthy (JList xs) = (xs \<noteq> [])"
| "truthy (JDict kvs) = (kvs \<noteq> [])"

text \<open>Lists and dicts cannot be dictionary keys.\<close>

fun hashable :: "json \<Rightarrow> bool" where
  "hashable (JList xs) = False"
| "hashable (JDict kvs) = False"
| "hashable _ = True"

subsection \<open>Text\<close>

definition digit_char :: "nat \<Rightarrow> char" where
  "digit_char d = ''0123456789'' ! d"

function str_of_nat :: "nat \<Rightarrow> string" where
  "str_of_nat n =
     (if n < 10 then [digit_char n] else str_of_nat (n div 10) @ [digit_char (n mod 10)])"
  by pat_completeness auto
termination
  by (relation "measure id") auto

declare str_of_nat.simps [simp del]

definition str_of_int :: "int \<Rightarrow> string" where
  "str_of_int i = (if i < 0 then ''-'' @ str_of_nat (nat (- i)) else str_of_nat (nat i))"

text \<open>\<open>str(v)\<close>, as an f-string field renders a value. The text of a list or a dict
  is left unspecified: the only value formatted is the evaluation, after the colour
  lookup has raised on a list or dict.\<close>

fun py_str :: "json \<Rightarrow> string" where
  "py_str JNull = ''None''"
| "py_str (JBool b) = (if b then ''True'' else ''False'')"
| "py_str (JInt i) = str_of_int i"
| "py_str (JFloat nz s) = s"
| "py_str (JStr s) = s"

fun join :: "string \<Rightarrow> string list \<Rightarrow> string" where
  "join sep [] = []"
| "join sep [x] = x"
| "join sep (x # y # ys) = x @ sep @ join sep (y # ys)"

text \<open>\<open>sep.join(items)\<close> raises when an item is not a string.\<close>

fun strs_of :: "json list \<Rightarrow> py_exn + string list" where
  "strs_of [] = Inr []"
| "strs_of (JStr s # vs) = ebind (strs_of vs) (\<lambda>ss. Inr (s # ss))"
| "strs_of (_ # vs) = Inl TypeError"

definition py_join :: "string \<Rightarrow> json list \<Rightarrow> py_exn + string" where
  "py_join sep vs = ebind (strs_of vs) (\<lambda>ss. Inr (join sep ss))"

section \<open>The outside world\<close>

text \<open>
  A \<open>requests.Response\<close>, with what the program and \<open>raise_for_status\<close> read of it.
  \<open>json_result\<close> is what \<open>response.json()\<close> gives: the parsed body, or the exception
  raised on a body that is not JSON.
\<close>

record response =
  status_code :: int
  reason :: string
  resp_url :: string
  resp_text :: string
  json_result :: "py_exn + json"

text \<open>
  \<open>Response.raise_for_status()\<close> of the requests library: an \<open>HTTPError\<close> for a status
  from 400 to 599, nothing otherwise. \<open>Response.__bool__\<close> is \<open>ok\<close>: whether
  \<open>raise_for_status\<close> passes.
\<close>

definition raise_for_status :: "response \<Rightarrow> py_exn + unit" where
  "raise_for_status r =
     (if 400 \<le> status_code r \<and> status_code r < 500 then
        Inl (RequestException
          (str_of_int (status_code r) @ '' Client Error: '' @ reason r @ '' for url: '' @ resp_url r))
      else if 500 \<le> status_code r \<and> status_code r < 600 then
        Inl (RequestException
          (str_of_int (status_code r) @ '' Server Error: '' @ reason r @ '' for url: '' @ resp_url r))
      else Inr ())"

definition response_ok :: "response \<Rightarrow> bool" where
  "response_ok r = (case raise_for_status r of Inl e \<Rightarrow> False | Inr u \<Rightarrow> True)"

text \<open>
  What a run does to the world, in order: a call of \<open>requests.post\<close> /
  \<open>requests.request("POST", ...)\<close> with its URL, headers and the document serialised
  as body; a record emitted by \<open>logging\<close>; a document printed on standard output. The
  entries \<open>CallBuilder\<close> and \<open>CallSender\<close> mark the calls of
  \<open>_generate_adaptive_card\<close> and \<open>send_teams_message\<close> with their arguments.
\<close>

datatype level = DEBUG | INFO | WARNING | ERROR

datatype event =
    HttpPost string "(string \<times> string) list" json
  | LogRecord level string
  | Stdout json
  | CallBuilder json
  | CallSender string json

fun level_no :: "level \<Rightarrow> nat" where
  "level_no DEBUG = 10"
| "level_no INFO = 20"
| "level_no WARNING = 30"
| "level_no ERROR = 40"

text \<open>\<open>logging.basicConfig(level=logging.INFO)\<close>: a record below INFO is dropped.\<close>

definition logging :: "level \<Rightarrow> string \<Rightarrow> event list" where
  "logging lvl msg = (if level_no INFO \<le> level_no lvl then [LogRecord lvl msg] else [])"

fun is_RequestException :: "py_exn \<Rightarrow> bool" where
  "is_RequestException (RequestException m) = True"
| "is_RequestException _ = False"

fun exn_str :: "py_exn \<Rightarrow> string" where
  "exn_str (RequestException m) = m"
| "exn_str (OtherError m) = m"
| "exn_str _ = []"

section \<open>send_teams_message\<close>

text \<open>
  The first argument is what the network answers to the POST: a response, or the exception
  \<open>requests.post\<close> raises. The result is the function's return value (\<open>None\<close> or the
  response) or the exception that leaves it, with the events it caused.
\<close>

definition send_teams_message ::
  "py_exn + response \<Rightarrow> string \<Rightarrow> json \<Rightarrow> (py_exn + response option) \<times> event list" where
  "send_teams_message reply webhook_url message_payload =
     (let headers = [(''Content-Type'', ''application/json'')];
          posted = [HttpPost webhook_url headers message_payload]
      in case ebind reply (\<lambda>response. ebind (raise_for_status response) (\<lambda>u. Inr response)) of
           Inr response \<Rightarrow> (Inr (Some response), posted)
         | Inl e \<Rightarrow>
             if is_RequestException e then
               (Inr None, posted @ logging ERROR (''Error sending message to Teams: '' @ exn_str e))
             else (Inl e, posted))"

section \<open>get_interventions\<close>

definition api_url :: string where
  "api_url = ''https://api.globaltradealert.org/api/v1/data/''"

definition api_payload :: json where
  "api_payload =
     JDict [(''limit'', JInt 1), (''offset'', JInt 0),
            (''request_data'', JDict [(''implementer'', JList [JInt 840])])]"

definition get_interventions :: "py_exn + response \<Rightarrow> string \<Rightarrow> (py_exn + json) \<times> event list" where
  "get_interventions reply api_key =
     (let headers = [(''Content-Type'', ''application/json''),
                     (''Authorization'', ''APIKey '' @ api_key)];
          posted = [HttpPost api_url headers api_payload]
      in case reply of
           Inl e \<Rightarrow> (Inl e, posted)
         | Inr response \<Rightarrow>
             if status_code response \<noteq> 200 then
               (Inr (JList []),
                posted @ logging ERROR (''Error retrieving interventions: '' @ resp_text response))
             else (json_result response, posted))"

section \<open>The card builder\<close>

text \<open>A list comprehension: the items in order, stopping at the first that raises.\<close>

fun emap :: "('a \<Rightarrow> py_exn + 'b) \<Rightarrow> 'a list \<Rightarrow> py_exn + 'b list" where
  "emap f [] = Inr []"
| "emap f (x # xs) = ebind (f x) (\<lambda>y. ebind (emap f xs) (\<lambda>ys. Inr (y # ys)))"

text \<open>\<open>[i.get('name', 'N/A') for i in lst]\<close>\<close>

definition names_of :: "json \<Rightarrow> py_exn + json list" where
  "names_of lst = ebind (py_iter lst) (emap (\<lambda>i. py_get i ''name'' (JStr ''N/A'')))"

text \<open>The display string of a list of names (lines 96 to 104, once for each list).\<close>

definition display_names :: "json list \<Rightarrow> py_exn + string" where
  "display_names names =
     (if length names > 5 then
        ebind (py_join '', '' (take 5 names))
          (\<lambda>s. Inr (s @ '', and '' @ str_of_nat (length names - 5) @ '' more.''))
      else if names \<noteq> [] then py_join '', '' names
      else Inr ''N/A'')"

definition color_map :: "(string \<times> string) list" where
  "color_map = [(''Red'', ''attention''), (''Amber'', ''warning''), (''Green'', ''good'')]"

text \<open>\<open>color_map.get(key, default)\<close>: the key is hashed first; only a string can be equal
  to one of the keys.\<close>

definition color_map_get :: "json \<Rightarrow> string \<Rightarrow> py_exn + string" where
  "color_map_get key d =
     (if \<not> hashable key then Inl TypeError
      else case key of
             JStr s \<Rightarrow> (case map_of color_map s of None \<Rightarrow> Inr d | Some c \<Rightarrow> Inr c)
           | _ \<Rightarrow> Inr d)"

text \<open>The dict literals of lines 119 to 248, with the local variables they read.\<close>

definition card ::
  "json \<Rightarrow> json \<Rightarrow> json \<Rightarrow> string \<Rightarrow> string \<Rightarrow> string \<Rightarrow> json \<Rightarrow> json \<Rightarrow> json \<Rightarrow> json \<Rightarrow>
   nat \<Rightarrow> nat \<Rightarrow> string \<Rightarrow> string \<Rightarrow> json" where
  "card title intervention_url evaluation status_color force_status force_color
        intervention_type mast_chapter implementation_level date_implemented
        num_products num_sectors display_implementer display_affected =
   JDict [
     (''type'', JStr ''AdaptiveCard''),
     (''$schema'', JStr ''http://adaptivecards.io/schemas/adaptive-card.json''),
     (''version'', JStr ''1.5''),
     (''body'', JList [
        JDict [
          (''type'', JStr ''TextBlock''),
          (''text'', title),
          (''weight'', JStr ''bolder''),
          (''size'', JStr ''medium''),
          (''wrap'', JBool True),
          (''horizontalAlignment'', JStr ''Center''),
          (''style'', JStr ''heading'')],
        JDict [
          (''type'', JStr ''ColumnSet''),
          (''columns'', JList [
             JDict [
               (''type'', JStr ''Column''),
               (''width'', JStr ''stretch''),
               (''items'', JList [
                  JDict [
                    (''type'', JStr ''TextBlock''),
                    (''text'', JStr (''GTA Evaluation: '' @ py_str evaluation)),
                    (''weight'', JStr ''bolder''),
                    (''color'', JStr status_color),
                    (''spacing'', JStr ''small'')]])],
             JDict [
               (''type'', JStr ''Column''),
               (''width'', JStr ''stretch''),
               (''items'', JList [
                  JDict [
                    (''type'', JStr ''TextBlock''),
                    (''text'', JStr (''Status: '' @ force_status)),
                    (''weight'', JStr ''bolder''),
                    (''color'', JStr force_color),
                    (''spacing'', JStr ''small''),
                    (''horizontalAlignment'', JStr ''right'')]])]])],
        JDict [
          (''type'', JStr ''Container''),
          (''style'', JStr ''emphasis''),
          (''spacing'', JStr ''medium''),
          (''items'', JList [
             JDict [
               (''type'', JStr ''FactSet''),
               (''spacing'', JStr ''medium''),
               (''facts'', JList [
                  JDict [(''title'', JStr ''Intervention Type''), (''value'', intervention_type)],
                  JDict [(''title'', JStr ''MAST Chapter''), (''value'', mast_chapter)],
                  JDict [(''title'', JStr ''Implementation Level''), (''value'', implementation_level)],
                  JDict [(''title'', JStr ''Date Implemented''), (''value'', date_implemented)],
                  JDict [(''title'', JStr ''Affected Products''),
                         (''value'', JStr (str_of_nat num_products @ '' product(s)''))],
                  JDict [(''title'', JStr ''Affected Sectors''),
                         (''value'', JStr (str_of_nat num_sectors @ '' sector(s)''))]])]])],
        JDict [
          (''type'', JStr ''Container''),
          (''spacing'', JStr ''medium''),
          (''items'', JList [
             JDict [
               (''type'', JStr ''TextBlock''),
               (''text'', JStr ''**Implementing Jurisdictions:**''),
               (''wrap'', JBool True),
               (''weight'', JStr ''bolder''),
               (''spacing'', JStr ''medium'')],
             JDict [
               (''type'', JStr ''TextBlock''),
               (''text'', JStr display_implementer),
               (''wrap'', JBool True),
               (''spacing'', JStr ''small'')]])],
        JDict [
          (''type'', JStr ''Container''),
          (''spacing'', JStr ''medium''),
          (''items'', JList [
             JDict [
               (''type'', JStr ''TextBlock''),
               (''text'', JStr ''**Affected Jurisdictions:**''),
               (''wrap'', JBool True),
               (''weight'', JStr ''bolder''),
               (''spacing'', JStr ''medium'')],
             JDict [
               (''type'', JStr ''TextBlock''),
               (''text'', JStr display_affected),
               (''wrap'', JBool True),
               (''spacing'', JStr ''small'')]])],
        JDict [
          (''type'', JStr ''Container''),
          (''spacing'', JStr ''medium''),
          (''items'', JList [
             JDict [
               (''type'', JStr ''ActionSet''),
               (''actions'', JList [
                  JDict [
                    (''type'', JStr ''Action.OpenUrl''),
                    (''title'', JStr ''View Full Intervention Details''),
                    (''url'', intervention_url),
                    (''style'', JStr ''positive'')]])]])]])]"

definition message :: "json \<Rightarrow> json" where
  "message c =
     JDict [
       (''type'', JStr ''message''),
       (''attachments'', JList [
          JDict [
            (''contentType'', JStr ''application/vnd.microsoft.card.adaptive''),
            (''content'', c)]])]"

definition generate_adaptive_card :: "json \<Rightarrow> py_exn + json" where
  "generate_adaptive_card data =
     ebind (py_get data ''state_act_title'' (JStr ''N/A'')) (\<lambda>title.
     ebind (py_get data ''intervention_url'' (JStr ''#'')) (\<lambda>intervention_url.
     ebind (py_get data ''gta_evaluation'' (JStr ''N/A'')) (\<lambda>evaluation.
     ebind (py_get data ''affected_jurisdictions'' (JList [])) (\<lambda>affected_list.
     ebind (py_get data ''implementing_jurisdictions'' (JList [])) (\<lambda>implementers_list.
     ebind (py_get data ''intervention_type'' (JStr ''N/A'')) (\<lambda>intervention_type.
     ebind (py_get data ''mast_chapter'' (JStr ''N/A'')) (\<lambda>mast_chapter.
     ebind (py_get data ''date_implemented'' (JStr ''N/A'')) (\<lambda>date_implemented.
     ebind (py_get data ''is_in_force'' (JInt 0)) (\<lambda>is_in_force.
     ebind (py_get data ''implementation_level'' (JStr ''N/A'')) (\<lambda>implementation_level.
     ebind (py_get data ''affected_products'' (JList [])) (\<lambda>affected_products.
     ebind (py_get data ''affected_sectors'' (JList [])) (\<lambda>affected_sectors.
     ebind (names_of implementers_list) (\<lambda>implementer_names.
     ebind (names_of affected_list) (\<lambda>affected_names.
     ebind (display_names implementer_names) (\<lambda>display_implementer.
     ebind (display_names affected_names) (\<lambda>display_affected.
     ebind (color_map_get evaluation ''default'') (\<lambda>status_color.
     let force_status = (if truthy is_in_force then ''In Force'' else ''Not In Force'');
         force_color = (if truthy is_in_force then ''good'' else ''attention'')
     in
     ebind (py_len affected_products) (\<lambda>num_products.
     ebind (py_len affected_sectors) (\<lambda>num_sectors.
     Inr (message
       (card title intervention_url evaluation status_color force_status force_color
          intervention_type mast_chapter implementation_level date_implemented
          num_products num_sectors display_implementer display_affected))
     )))))))))))))))))))"

section \<open>The top level\<close>

text \<open>
  The environment after \<open>load_dotenv()\<close>, and what the network answers to the two POSTs
  (each is made at most once in a run).
\<close>

record environ =
  WEBHOOK_URL :: "string option"
  GTA_API_KEY :: "string option"

record network =
  api_reply :: "py_exn + response"
  webhook_reply :: "py_exn + response"

text \<open>A run ends by \<open>sys.exit(n)\<close>, by reaching the end of the script (\<open>Exit 0\<close>), or by
  an exception nothing catches; the interpreter then exits with status 1.\<close>

datatype outcome = Exit int | Uncaught py_exn

fun exit_code :: "outcome \<Rightarrow> int" where
  "exit_code (Exit n) = n"
| "exit_code (Uncaught e) = 1"

text \<open>\<open>interventions[0]\<close>\<close>

fun py_getitem0 :: "json \<Rightarrow> py_exn + json" where
  "py_getitem0 (JList []) = Inl IndexError"
| "py_getitem0 (JList (x # xs)) = Inr x"
| "py_getitem0 (JStr []) = Inl IndexError"
| "py_getitem0 (JStr (c # cs)) = Inr (JStr [c])"
| "py_getitem0 (JDict kvs) = Inl KeyError"
| "py_getitem0 _ = Inl TypeError"

definition fatal :: "string \<Rightarrow> outcome \<times> event list" where
  "fatal var =
     (Exit 1,
      logging ERROR (''FATAL: The '' @ [CHR 0x27] @ var @ [CHR 0x27] @ '' environment variable is not set.'')
      @ logging ERROR ''Set the environment variable in your .env file and try again.'')"

text \<open>Lines 269 to 283, with both variables set.\<close>

definition relay :: "string \<Rightarrow> string \<Rightarrow> network \<Rightarrow> outcome \<times> event list" where
  "relay webhook_url api_key net =
     (let (fetched, ev1) = get_interventions (api_reply net) api_key
      in case ebind fetched (\<lambda>interventions.
              ebind (py_len interventions) (\<lambda>n. Inr (interventions, n))) of
           Inl e \<Rightarrow> (Uncaught e, ev1)
         | Inr (interventions, n) \<Rightarrow>
             if n \<noteq> 0 then
               (case py_getitem0 interventions of
                  Inl e \<Rightarrow> (Uncaught e, ev1)
                | Inr data \<Rightarrow>
                    (case generate_adaptive_card data of
                       Inl e \<Rightarrow> (Uncaught e, ev1 @ [CallBuilder data])
                     | Inr payload \<Rightarrow>
                         (let (sent, ev2) = send_teams_message (webhook_reply net) webhook_url payload;
                              evs = ev1 @ [CallBuilder data, Stdout payload,
                                           CallSender webhook_url payload] @ ev2
                          in case sent of
                               Inl e \<Rightarrow> (Uncaught e, evs)
                             | Inr None \<Rightarrow>
                                 (Exit 0, evs @ logging ERROR
                                    ''Failed to send message. Check the logs above for details.'')
                             | Inr (Some response) \<Rightarrow>
                                 if response_ok response then
                                   (Exit 0, evs @ logging INFO ''Message sent successfully!''
                                      @ logging DEBUG (''Response Text: '' @ resp_text response))
                                 else
                                   (Exit 0, evs @ logging ERROR
                                      ''Failed to send message. Check the logs above for details.''))))
             else (Exit 0, ev1 @ logging INFO ''No interventions found.''))"

definition main :: "environ \<Rightarrow> network \<Rightarrow> outcome \<times> event list" where
  "main env net =
     (case WEBHOOK_URL env of
        None \<Rightarrow> fatal ''WEBHOOK_URL''
      | Some webhook_url \<Rightarrow>
          if webhook_url = [] then fatal ''WEBHOOK_URL''
          else (case GTA_API_KEY env of
                  None \<Rightarrow> fatal ''GTA_API_KEY''
                | Some api_key \<Rightarrow>
                    if api_key = [] then fatal ''GTA_API_KEY''
                    else relay webhook_url api_key net))"

section \<open>Reading the results\<close>

text \<open>A place in a document: \<open>doc["attachments"][0]["content"]\<close> is the path
  \<open>[Key ''attachments'', Idx 0, Key ''content'']\<close>.\<close>

datatype step = Key string | Idx nat

fun lookup :: "json \<Rightarrow> step list \<Rightarrow> json option" where
  "lookup v [] = Some v"
| "lookup (JDict kvs) (Key k # p) = (case map_of kvs k of None \<Rightarrow> None | Some v \<Rightarrow> lookup v p)"
| "lookup (JList xs) (Idx i # p) = (if i < length xs then lookup (xs ! i) p else None)"
| "lookup _ _ = None"

definition body_path :: "nat \<Rightarrow> step list" where
  "body_path i = [Key ''attachments'', Idx 0, Key ''content'', Key ''body'', Idx i]"

definition title_path :: "step list" where
  "title_path = body_path 0 @ [Key ''text'']"

definition evaluation_path :: "step list" where
  "evaluation_path = body_path 1 @ [Key ''columns'', Idx 0, Key ''items'', Idx 0, Key ''text'']"

definition status_color_path :: "step list" where
  "status_color_path = body_path 1 @ [Key ''columns'', Idx 0, Key ''items'', Idx 0, Key ''color'']"

definition force_status_path :: "step list" where
  "force_status_path = body_path 1 @ [Key ''columns'', Idx 1, Key ''items'', Idx 0, Key ''text'']"

definition force_color_path :: "step list" where
  "force_color_path = body_path 1 @ [Key ''columns'', Idx 1, Key ''items'', Idx 0, Key ''color'']"

definition fact_path :: "nat \<Rightarrow> step list" where
  "fact_path i = body_path 2 @ [Key ''items'', Idx 0, Key ''facts'', Idx i, Key ''value'']"

definition display_implementer_path :: "step list" where
  "display_implementer_path = body_path 3 @ [Key ''items'', Idx 1, Key ''text'']"

definition display_affected_path :: "step list" where
  "display_affected_path = body_path 4 @ [Key ''items'', Idx 1, Key ''text'']"

definition url_path :: "step list" where
  "url_path = body_path 5 @ [Key ''items'', Idx 0, Key ''actions'', Idx 0, Key ''url'']"

text \<open>
  The name of a jurisdiction entry as the specification describes it: the entry is an
  object, and its name is the string under \<open>name\<close>, or \<open>N/A\<close> when the key is missing.
  An entry of any other shape has no name.
\<close>

fun entry_name :: "json \<Rightarrow> string option" where
  "entry_name (JDict d) =
     (case map_of d ''name'' of
        None \<Rightarrow> Some ''N/A''
      | Some (JStr s) \<Rightarrow> Some s
      | Some _ \<Rightarrow> None)"
| "entry_name _ = None"

text \<open>The display string in the words of the specification.\<close>

definition spec_display :: "string list \<Rightarrow> string" where
  "spec_display names =
     (if length names > 5 then
        join '', '' (take 5 names) @ '', and '' @ str_of_nat (length names - 5) @ '' more.''
      else if 1 \<le> length names then join '', '' names
      else ''N/A'')"

text \<open>
  A record whose fields, where present, have the types of the data model as far as the
  builder depends on them: the evaluation is a scalar, the two jurisdiction fields are
  lists of jurisdiction entries, the products and sectors are lists. Every field may be
  absent; nothing is asked of the other fields.
\<close>

fun is_list :: "json \<Rightarrow> bool" where
  "is_list (JList xs) = True"
| "is_list _ = False"

fun jurisdictions_ok :: "json \<Rightarrow> bool" where
  "jurisdictions_ok (JList es) = list_all (\<lambda>e. entry_name e \<noteq> None) es"
| "jurisdictions_ok _ = False"

definition record_ok :: "(string \<times> json) list \<Rightarrow> bool" where
  "record_ok kvs =
     (hashable (dict_get kvs ''gta_evaluation'' (JStr ''N/A''))
      \<and> jurisdictions_ok (dict_get kvs ''implementing_jurisdictions'' (JList []))
      \<and> jurisdictions_ok (dict_get kvs ''affected_jurisdictions'' (JList []))
      \<and> is_list (dict_get kvs ''affected_products'' (JList []))
      \<and> is_list (dict_get kvs ''affected_sectors'' (JList [])))"

text \<open>\<open>not v\<close> for a value of \<open>os.getenv\<close>: unset or empty.\<close>

fun missing :: "string option \<Rightarrow> bool" where
  "missing None = True"
| "missing (Some s) = (s = [])"

fun is_HttpPost :: "event \<Rightarrow> bool" where
  "is_HttpPost (HttpPost u h b) = True"
| "is_HttpPost _ = False"

fun is_LogRecord :: "event \<Rightarrow> bool" where
  "is_LogRecord (LogRecord l m) = True"
| "is_LogRecord _ = False"

fun is_call :: "event \<Rightarrow> bool" where
  "is_call (CallBuilder d) = True"
| "is_call (CallSender u p) = True"
| "is_call _ = False"

definition api_post :: "string \<Rightarrow> event" where
  "api_post api_key =
     HttpPost api_url
       [(''Content-Type'', ''application/json''), (''Authorization'', ''APIKey '' @ api_key)]
       api_payload"

definition webhook_post :: "string \<Rightarrow> json \<Rightarrow> event" where
  "webhook_post webhook_url payload =
     HttpPost webhook_url [(''Content-Type'', ''application/json'')] payload"

section \<open>The fetcher\<close>

lemma get_interventions_raises:
  "get_interventions (Inl e) api_key = (Inl e, [api_post api_key])"
  by (simp add: get_interventions_def api_post_def)

lemma get_interventions_not_200:
  "status_code r \<noteq> 200 \<Longrightarrow>
   get_interventions (Inr r) api_key =
     (Inr (JList []),
      [api_post api_key, LogRecord ERROR (''Error retrieving interventions: '' @ resp_text r)])"
  by (simp add: get_interventions_def api_post_def logging_def)

lemma get_interventions_200:
  "status_code r = 200 \<Longrightarrow>
   get_interventions (Inr r) api_key = (json_result r, [api_post api_key])"
  by (simp add: get_interventions_def api_post_def)

text \<open>
  C6. A response with a status other than 200 makes the fetcher log the response body as
  an error and return the empty list: it returns, and what it returns is empty whatever
  the body holds. A response with status 200 makes it return the parsed JSON body, with
  nothing logged.
\<close>

theorem fetcher_status_handling:
  "(status_code r \<noteq> 200 \<longrightarrow>
      get_interventions (Inr r) api_key =
        (Inr (JList []),
         [api_post api_key,
          LogRecord ERROR (''Error retrieving interventions: '' @ resp_text r)]))
   \<and> (status_code r = 200 \<longrightarrow> json_result r = Inr body \<longrightarrow>
      get_interventions (Inr r) api_key = (Inr body, [api_post api_key]))"
  by (simp add: get_interventions_not_200 get_interventions_200)

theorem fetcher_status_handling_witness:
  "get_interventions
     (Inr \<lparr>status_code = 503, reason = ''Service Unavailable'', resp_url = api_url,
           resp_text = ''down'', json_result = Inr (JList [JDict []])\<rparr>) ''k''
     = (Inr (JList []),
        [api_post ''k'', LogRecord ERROR ''Error retrieving interventions: down''])
   \<and> get_interventions
     (Inr \<lparr>status_code = 200, reason = ''OK'', resp_url = api_url,
           resp_text = ''[{}]'', json_result = Inr (JList [JDict []])\<rparr>) ''k''
     = (Inr (JList [JDict []]), [api_post ''k''])"
  using fetcher_status_handling
          [where r = "\<lparr>status_code = 503, reason = ''Service Unavailable'', resp_url = api_url,
                resp_text = ''down'', json_result = Inr (JList [JDict []])\<rparr>"
             and api_key = "''k''"]
        fetcher_status_handling
          [where r = "\<lparr>status_code = 200, reason = ''OK'', resp_url = api_url,
                resp_text = ''[{}]'', json_result = Inr (JList [JDict []])\<rparr>"
             and body = "JList [JDict []]" and api_key = "''k''"]
  by simp

section \<open>The sender\<close>

lemma raise_for_status_passes:
  "\<not> (400 \<le> status_code r \<and> status_code r < 600) \<Longrightarrow> raise_for_status r = Inr ()"
  by (auto simp add: raise_for_status_def)

lemma raise_for_status_raises:
  "400 \<le> status_code r \<Longrightarrow> status_code r < 600 \<Longrightarrow>
   \<exists>m. raise_for_status r = Inl (RequestException m)"
  by (auto simp add: raise_for_status_def)

lemma send_returns_response:
  "raise_for_status r = Inr () \<Longrightarrow>
   send_teams_message (Inr r) url p = (Inr (Some r), [webhook_post url p])"
  by (simp add: send_teams_message_def ebind_def webhook_post_def)

lemma send_contains_http_error:
  "raise_for_status r = Inl (RequestException m) \<Longrightarrow>
   send_teams_message (Inr r) url p =
     (Inr None, [webhook_post url p, LogRecord ERROR (''Error sending message to Teams: '' @ m)])"
  by (simp add: send_teams_message_def ebind_def webhook_post_def logging_def)

lemma send_contains_exception:
  "send_teams_message (Inl (RequestException m)) url p =
     (Inr None, [webhook_post url p, LogRecord ERROR (''Error sending message to Teams: '' @ m)])"
  by (simp add: send_teams_message_def ebind_def webhook_post_def logging_def)

lemma send_other_exception:
  "\<not> is_RequestException e \<Longrightarrow>
   send_teams_message (Inl e) url p = (Inl e, [webhook_post url p])"
  by (simp add: send_teams_message_def ebind_def webhook_post_def)

text \<open>
  C5, as the code has it. The sender returns the response object whenever
  \<open>raise_for_status\<close> passes, that is on every status outside 400 to 599: on every 2xx
  status, and on a 1xx or 3xx status as well. On a status from 400 to 599 it logs the
  error with the message of the \<open>HTTPError\<close> and returns \<open>None\<close>; on an exception of the
  requests library raised by the POST it logs the error with its message and returns
  \<open>None\<close>. In none of these cases does an exception leave the function.
\<close>

theorem sender_returns_or_contains:
  "(200 \<le> status_code r \<and> status_code r < 300 \<longrightarrow>
      send_teams_message (Inr r) url p = (Inr (Some r), [webhook_post url p]))
   \<and> (\<not> (400 \<le> status_code r \<and> status_code r < 600) \<longrightarrow>
      send_teams_message (Inr r) url p = (Inr (Some r), [webhook_post url p]))
   \<and> (400 \<le> status_code r \<and> status_code r < 600 \<longrightarrow>
      (\<exists>m. raise_for_status r = Inl (RequestException m)
         \<and> send_teams_message (Inr r) url p =
             (Inr None,
              [webhook_post url p, LogRecord ERROR (''Error sending message to Teams: '' @ m)])))
   \<and> send_teams_message (Inl (RequestException msg)) url p =
        (Inr None,
         [webhook_post url p, LogRecord ERROR (''Error sending message to Teams: '' @ msg)])"
proof -
  have a: "\<not> (400 \<le> status_code r \<and> status_code r < 600) \<longrightarrow>
      send_teams_message (Inr r) url p = (Inr (Some r), [webhook_post url p])"
    using raise_for_status_passes [of r] send_returns_response [of r url p] by blast
  have b: "400 \<le> status_code r \<and> status_code r < 600 \<longrightarrow>
      (\<exists>m. raise_for_status r = Inl (RequestException m)
         \<and> send_teams_message (Inr r) url p =
             (Inr None,
              [webhook_post url p, LogRecord ERROR (''Error sending message to Teams: '' @ m)]))"
    using raise_for_status_raises [of r] send_contains_http_error [of r _ url p] by blast
  from a have c: "200 \<le> status_code r \<and> status_code r < 300 \<longrightarrow>
      send_teams_message (Inr r) url p = (Inr (Some r), [webhook_post url p])"
    by auto
  show ?thesis using a b c send_contains_exception [of msg url p] by blast
qed

theorem sender_returns_or_contains_witness:
  "send_teams_message
     (Inr \<lparr>status_code = 200, reason = ''OK'', resp_url = ''https://h.example/w'',
           resp_text = ''1'', json_result = Inr (JInt 1)\<rparr>) ''https://h.example/w'' JNull
     = (Inr (Some \<lparr>status_code = 200, reason = ''OK'', resp_url = ''https://h.example/w'',
           resp_text = ''1'', json_result = Inr (JInt 1)\<rparr>),
        [webhook_post ''https://h.example/w'' JNull])
   \<and> (\<exists>m. send_teams_message
     (Inr \<lparr>status_code = 500, reason = ''Internal Server Error'',
           resp_url = ''https://h.example/w'', resp_text = ''failed'',
           json_result = Inl (OtherError ''not JSON'')\<rparr>) ''https://h.example/w'' JNull
     = (Inr None,
        [webhook_post ''https://h.example/w'' JNull,
         LogRecord ERROR (''Error sending message to Teams: '' @ m)]))
   \<and> send_teams_message (Inl (RequestException ''Connection refused''))
        ''https://h.example/w'' JNull
     = (Inr None,
        [webhook_post ''https://h.example/w'' JNull,
         LogRecord ERROR ''Error sending message to Teams: Connection refused''])"
  using sender_returns_or_contains
          [where r = "\<lparr>status_code = 200, reason = ''OK'', resp_url = ''https://h.example/w'',
                resp_text = ''1'', json_result = Inr (JInt 1)\<rparr>"
             and url = "''https://h.example/w''" and p = JNull
             and msg = "''Connection refused''"]
        sender_returns_or_contains
          [where r = "\<lparr>status_code = 500, reason = ''Internal Server Error'',
                resp_url = ''https://h.example/w'', resp_text = ''failed'',
                json_result = Inl (OtherError ''not JSON'')\<rparr>"
             and url = "''https://h.example/w''" and p = JNull
             and msg = "''Connection refused''"]
  by auto

text \<open>
  A response with status 304 is not a 2xx response, and the sender returns it to the
  caller with nothing logged: \<open>raise_for_status\<close> raises on 4xx and 5xx only.
\<close>

theorem sender_non_2xx_counterexample:
  "\<not> (200 \<le> status_code \<lparr>status_code = 304, reason = ''Not Modified'',
            resp_url = ''https://h.example/w'', resp_text = [],
            json_result = Inl (OtherError ''not JSON'')\<rparr>
       \<and> status_code \<lparr>status_code = 304, reason = ''Not Modified'',
            resp_url = ''https://h.example/w'', resp_text = [],
            json_result = Inl (OtherError ''not JSON'')\<rparr> < 300)
   \<and> send_teams_message
       (Inr \<lparr>status_code = 304, reason = ''Not Modified'',
             resp_url = ''https://h.example/w'', resp_text = [],
             json_result = Inl (OtherError ''not JSON'')\<rparr>) ''https://h.example/w'' JNull
     = (Inr (Some \<lparr>status_code = 304, reason = ''Not Modified'',
             resp_url = ''https://h.example/w'', resp_text = [],
             json_result = Inl (OtherError ''not JSON'')\<rparr>),
        [webhook_post ''https://h.example/w'' JNull])"
  by (simp add: send_teams_message_def ebind_def webhook_post_def raise_for_status_def)

section \<open>Runs of the top level\<close>

lemma get_interventions_events:
  "snd (get_interventions reply key) = [api_post key]
   \<or> (\<exists>m. snd (get_interventions reply key) = [api_post key, LogRecord ERROR m])"
  by (cases reply) (auto simp add: get_interventions_def api_post_def logging_def Let_def)

lemma get_interventions_nonempty:
  assumes "fst (get_interventions reply key) = Inr (JList (d # ds))"
  shows "get_interventions reply key = (Inr (JList (d # ds)), [api_post key])"
  using assms
  by (cases reply) (auto simp add: get_interventions_def api_post_def Let_def split: if_splits)

lemma relay_fetch_raises:
  "fst (get_interventions (api_reply net) key) = Inl e \<Longrightarrow>
   relay url key net = (Uncaught e, snd (get_interventions (api_reply net) key))"
  by (cases "get_interventions (api_reply net) key") (simp add: relay_def ebind_def)

lemma relay_no_records:
  "fst (get_interventions (api_reply net) key) = Inr (JList []) \<Longrightarrow>
   relay url key net =
     (Exit 0, snd (get_interventions (api_reply net) key)
              @ [LogRecord INFO ''No interventions found.''])"
  by (cases "get_interventions (api_reply net) key") (simp add: relay_def ebind_def logging_def)

lemma relay_builder_raises:
  "fst (get_interventions (api_reply net) key) = Inr (JList (d # ds)) \<Longrightarrow>
   generate_adaptive_card d = Inl e \<Longrightarrow>
   relay url key net = (Uncaught e, [api_post key, CallBuilder d])"
  using get_interventions_nonempty [of "api_reply net" key d ds]
  by (simp add: relay_def ebind_def)

lemma relay_sends:
  assumes "fst (get_interventions (api_reply net) key) = Inr (JList (d # ds))"
      and "generate_adaptive_card d = Inr payload"
  shows "\<exists>logs. list_all is_LogRecord logs \<and>
     snd (relay url key net) =
       [api_post key, CallBuilder d, Stdout payload, CallSender url payload,
        webhook_post url payload] @ logs"
proof -
  have sent: "\<exists>res logs. send_teams_message (webhook_reply net) url payload
                = (res, webhook_post url payload # logs) \<and> list_all is_LogRecord logs"
    by (auto simp add: send_teams_message_def webhook_post_def logging_def Let_def
             split: sum.splits)
  then obtain res logs where s: "send_teams_message (webhook_reply net) url payload
                = (res, webhook_post url payload # logs)" and l: "list_all is_LogRecord logs"
    by blast
  show ?thesis
    using get_interventions_nonempty [OF assms(1)] assms(2) s l
    by (auto simp add: relay_def ebind_def logging_def Let_def split: sum.splits option.splits)
qed

lemma relay_send_fails:
  assumes "fst (get_interventions (api_reply net) key) = Inr (JList (d # ds))"
      and "generate_adaptive_card d = Inr payload"
      and "fst (send_teams_message (webhook_reply net) url payload) = Inr None"
  shows "fst (relay url key net) = Exit 0"
  using get_interventions_nonempty [OF assms(1)] assms(2,3)
  by (cases "send_teams_message (webhook_reply net) url payload")
     (auto simp add: relay_def ebind_def Let_def)

lemma relay_exit:
  "fst (relay url key net) = Exit n \<Longrightarrow> n = 0"
  by (auto simp add: relay_def ebind_def Let_def
           split: prod.splits sum.splits option.splits if_splits)

lemma main_missing:
  "missing (WEBHOOK_URL env) \<or> missing (GTA_API_KEY env) \<Longrightarrow>
   fst (main env net) = Exit 1 \<and> filter is_HttpPost (snd (main env net)) = []
   \<and> filter is_call (snd (main env net)) = []"
  by (cases "WEBHOOK_URL env"; cases "GTA_API_KEY env")
     (auto simp add: main_def fatal_def logging_def)

lemma main_configured:
  "WEBHOOK_URL env = Some url \<Longrightarrow> url \<noteq> [] \<Longrightarrow> GTA_API_KEY env = Some key \<Longrightarrow> key \<noteq> [] \<Longrightarrow>
   main env net = relay url key net"
  by (simp add: main_def)


lemma relay_first_only:
  assumes "fst (get_interventions (api_reply net) key) = Inr (JList (d # ds))"
      and "fst (get_interventions (api_reply net') key) = Inr (JList (d # ds'))"
      and "webhook_reply net' = webhook_reply net"
  shows "relay url key net' = relay url key net"
  using get_interventions_nonempty [OF assms(1)] get_interventions_nonempty [OF assms(2)] assms(3)
  by (cases "generate_adaptive_card d") (simp_all add: relay_def ebind_def)

lemma logs_no_posts:
  "list_all is_LogRecord logs \<Longrightarrow> filter is_HttpPost logs = [] \<and> filter is_call logs = []"
  by (induction logs) (auto elim: is_LogRecord.elims)

lemma empty_record_card:
  "generate_adaptive_card (JDict []) =
     Inr (message (card (JStr ''N/A'') (JStr ''#'') (JStr ''N/A'') ''default''
            ''Not In Force'' ''attention'' (JStr ''N/A'') (JStr ''N/A'') (JStr ''N/A'')
            (JStr ''N/A'') 0 0 ''N/A'' ''N/A''))"
  by (simp add: generate_adaptive_card_def ebind_def dict_get_def names_of_def
        display_names_def color_map_get_def color_map_def)

text \<open>
  C10. An exception raised by the POST of the fetcher (a connection error, a timeout) is
  not caught: it leaves \<open>get_interventions\<close>, and with both variables set it leaves the
  top level too, so that the run ends by that exception after the one request, with no
  card built and nothing sent.
\<close>

theorem fetch_exception_propagates:
  "get_interventions (Inl e) key = (Inl e, [api_post key])
   \<and> (WEBHOOK_URL env = Some url \<and> url \<noteq> [] \<and> GTA_API_KEY env = Some key \<and> key \<noteq> []
        \<and> api_reply net = Inl e \<longrightarrow>
      main env net = (Uncaught e, [api_post key]))"
  using main_configured [of env url key net] relay_fetch_raises [of net key e url]
  by (auto simp add: get_interventions_raises)

theorem fetch_exception_propagates_witness:
  "main \<lparr>WEBHOOK_URL = Some ''https://h.example/w'', GTA_API_KEY = Some ''k''\<rparr>
        \<lparr>api_reply = Inl (RequestException ''Connection timed out''),
         webhook_reply = Inl (RequestException ''unused'')\<rparr>
     = (Uncaught (RequestException ''Connection timed out''), [api_post ''k''])"
  using fetch_exception_propagates
          [where env = "\<lparr>WEBHOOK_URL = Some ''https://h.example/w'', GTA_API_KEY = Some ''k''\<rparr>"
             and net = "\<lparr>api_reply = Inl (RequestException ''Connection timed out''),
                         webhook_reply = Inl (RequestException ''unused'')\<rparr>"
             and url = "''https://h.example/w''" and key = "''k''"
             and e = "RequestException ''Connection timed out''"]
  by simp

text \<open>
  C8. In a run with both variables set in which the fetch returns the empty list, the
  builder and the sender are never called and the only request is the one of the fetch;
  the run logs \<open>No interventions found.\<close> at level INFO after what the fetch logged, and
  exits with code 0.
\<close>

theorem no_records_no_card:
  assumes "WEBHOOK_URL env = Some url" and "url \<noteq> []"
      and "GTA_API_KEY env = Some key" and "key \<noteq> []"
      and "fst (get_interventions (api_reply net) key) = Inr (JList [])"
  shows "main env net =
           (Exit 0, snd (get_interventions (api_reply net) key)
                    @ [LogRecord INFO ''No interventions found.''])
         \<and> filter is_call (snd (main env net)) = []
         \<and> filter is_HttpPost (snd (main env net)) = [api_post key]
         \<and> exit_code (fst (main env net)) = 0"
proof -
  have m: "main env net =
           (Exit 0, snd (get_interventions (api_reply net) key)
                    @ [LogRecord INFO ''No interventions found.''])"
    using main_configured [OF assms(1-4)] relay_no_records [OF assms(5)] by simp
  show ?thesis
    using m get_interventions_events [of "api_reply net" key]
    by (auto simp add: api_post_def)
qed

theorem no_records_no_card_witness:
  "main \<lparr>WEBHOOK_URL = Some ''https://h.example/w'', GTA_API_KEY = Some ''k''\<rparr>
        \<lparr>api_reply = Inr \<lparr>status_code = 200, reason = ''OK'', resp_url = api_url,
                            resp_text = ''[]'', json_result = Inr (JList [])\<rparr>,
         webhook_reply = Inl (RequestException ''unused'')\<rparr>
     = (Exit 0, [api_post ''k'', LogRecord INFO ''No interventions found.''])"
  using no_records_no_card
          [where env = "\<lparr>WEBHOOK_URL = Some ''https://h.example/w'', GTA_API_KEY = Some ''k''\<rparr>"
             and net = "\<lparr>api_reply = Inr \<lparr>status_code = 200, reason = ''OK'', resp_url = api_url,
                            resp_text = ''[]'', json_result = Inr (JList [])\<rparr>,
                         webhook_reply = Inl (RequestException ''unused'')\<rparr>"
             and url = "''https://h.example/w''" and key = "''k''"]
  by (simp add: get_interventions_200)

lemma send_result:
  "fst (send_teams_message reply url p) =
     (case reply of
        Inr r \<Rightarrow> Inr (if response_ok r then Some r else None)
      | Inl e \<Rightarrow> if is_RequestException e then Inr None else Inl e)"
  by (cases reply)
     (auto simp add: send_teams_message_def ebind_def Let_def response_ok_def
                     raise_for_status_def split: sum.splits)

lemma relay_outcome:
  assumes "fst (get_interventions (api_reply net) key) = Inr v"
  shows "fst (relay url key net) =
    (case py_len v of
       Inl e \<Rightarrow> Uncaught e
     | Inr n \<Rightarrow>
         if n = 0 then Exit 0
         else (case py_getitem0 v of
                 Inl e \<Rightarrow> Uncaught e
               | Inr d \<Rightarrow>
                   (case generate_adaptive_card d of
                      Inl e \<Rightarrow> Uncaught e
                    | Inr payload \<Rightarrow>
                        (case fst (send_teams_message (webhook_reply net) url payload) of
                           Inl e \<Rightarrow> Uncaught e
                         | Inr res \<Rightarrow> Exit 0))))"
proof (cases "get_interventions (api_reply net) key")
  case (Pair fetched ev1)
  with assms have f: "fetched = Inr v" by simp
  show ?thesis
    unfolding relay_def Pair f
    by (auto simp add: ebind_def Let_def split: sum.splits prod.splits option.splits)
qed

text \<open>
  C7, as the code has it. When \<open>WEBHOOK_URL\<close> or \<open>GTA_API_KEY\<close> is missing (unset or
  empty) the run exits with code 1 and makes no request. With both set, a run exits with
  code 0 unless an exception escapes, and never exits with another code. It exits with
  code 0 when the fetch yields no records, when the webhook answers the POST with a
  response (the card is sent, or the sender reports the status as a failure), and when
  the POST raises an exception of the requests library (the sender reports failure). It
  is ended by an exception exactly when the fetch raises, when the
  fetched value has no length or no item 0, when the builder raises on the first record,
  or when the POST to the webhook raises an exception outside the requests library.
\<close>

theorem exit_codes:
  "(missing (WEBHOOK_URL env) \<or> missing (GTA_API_KEY env) \<longrightarrow>
      fst (main env net) = Exit 1 \<and> exit_code (fst (main env net)) = 1
      \<and> filter is_HttpPost (snd (main env net)) = [])
   \<and> (\<not> missing (WEBHOOK_URL env) \<and> \<not> missing (GTA_API_KEY env) \<longrightarrow>
      fst (main env net) = Exit 0 \<or> (\<exists>e. fst (main env net) = Uncaught e))
   \<and> (WEBHOOK_URL env = Some url \<and> url \<noteq> [] \<and> GTA_API_KEY env = Some key \<and> key \<noteq> [] \<longrightarrow>
      (fst (get_interventions (api_reply net) key) = Inr (JList []) \<longrightarrow>
         fst (main env net) = Exit 0)
      \<and> (fst (get_interventions (api_reply net) key) = Inr (JList (d # ds))
           \<and> generate_adaptive_card d = Inr payload
           \<and> fst (send_teams_message (webhook_reply net) url payload) = Inr None \<longrightarrow>
         fst (main env net) = Exit 0))
   \<and> (WEBHOOK_URL env = Some url \<and> url \<noteq> [] \<and> GTA_API_KEY env = Some key \<and> key \<noteq> [] \<longrightarrow>
      (fst (get_interventions (api_reply net) key) = Inl e \<longrightarrow>
         fst (main env net) = Uncaught e)
      \<and> (fst (get_interventions (api_reply net) key) = Inr v \<longrightarrow>
          (py_len v = Inl e \<longrightarrow> fst (main env net) = Uncaught e)
          \<and> (py_len v = Inr 0 \<longrightarrow> fst (main env net) = Exit 0)
          \<and> (py_len v = Inr n \<and> n \<noteq> 0 \<longrightarrow>
              (py_getitem0 v = Inl e \<longrightarrow> fst (main env net) = Uncaught e)
              \<and> (py_getitem0 v = Inr data \<longrightarrow>
                  (generate_adaptive_card data = Inl e \<longrightarrow>
                     fst (main env net) = Uncaught e)
                  \<and> (generate_adaptive_card data = Inr card_payload \<longrightarrow>
                      (webhook_reply net = Inr r \<longrightarrow> fst (main env net) = Exit 0)
                      \<and> (webhook_reply net = Inl e \<and> is_RequestException e \<longrightarrow>
                           fst (main env net) = Exit 0)
                      \<and> (webhook_reply net = Inl e \<and> \<not> is_RequestException e \<longrightarrow>
                           fst (main env net) = Uncaught e))))))"
proof -
  have a: "missing (WEBHOOK_URL env) \<or> missing (GTA_API_KEY env) \<longrightarrow>
      fst (main env net) = Exit 1 \<and> exit_code (fst (main env net)) = 1
      \<and> filter is_HttpPost (snd (main env net)) = []"
    using main_missing [of env net] by auto
  have b: "\<not> missing (WEBHOOK_URL env) \<and> \<not> missing (GTA_API_KEY env) \<longrightarrow>
      fst (main env net) = Exit 0 \<or> (\<exists>e. fst (main env net) = Uncaught e)"
  proof
    assume set: "\<not> missing (WEBHOOK_URL env) \<and> \<not> missing (GTA_API_KEY env)"
    then obtain u k where uk: "WEBHOOK_URL env = Some u" "u \<noteq> []" "GTA_API_KEY env = Some k" "k \<noteq> []"
      by (cases "WEBHOOK_URL env"; cases "GTA_API_KEY env") auto
    have m: "main env net = relay u k net"
      using main_configured [OF uk] .
    show "fst (main env net) = Exit 0 \<or> (\<exists>e. fst (main env net) = Uncaught e)"
      using relay_exit [of u k net] m by (cases "fst (relay u k net)") auto
  qed
  have c: "WEBHOOK_URL env = Some url \<and> url \<noteq> [] \<and> GTA_API_KEY env = Some key \<and> key \<noteq> [] \<longrightarrow>
      (fst (get_interventions (api_reply net) key) = Inr (JList []) \<longrightarrow>
         fst (main env net) = Exit 0)
      \<and> (fst (get_interventions (api_reply net) key) = Inr (JList (d # ds))
           \<and> generate_adaptive_card d = Inr payload
           \<and> fst (send_teams_message (webhook_reply net) url payload) = Inr None \<longrightarrow>
         fst (main env net) = Exit 0)"
    using main_configured [of env url key net] relay_no_records [of net key url]
          relay_send_fails [of net key d ds payload url]
    by auto
  have d: "WEBHOOK_URL env = Some url \<and> url \<noteq> [] \<and> GTA_API_KEY env = Some key \<and> key \<noteq> [] \<longrightarrow>
      (fst (get_interventions (api_reply net) key) = Inl e \<longrightarrow>
         fst (main env net) = Uncaught e)
      \<and> (fst (get_interventions (api_reply net) key) = Inr v \<longrightarrow>
          (py_len v = Inl e \<longrightarrow> fst (main env net) = Uncaught e)
          \<and> (py_len v = Inr 0 \<longrightarrow> fst (main env net) = Exit 0)
          \<and> (py_len v = Inr n \<and> n \<noteq> 0 \<longrightarrow>
              (py_getitem0 v = Inl e \<longrightarrow> fst (main env net) = Uncaught e)
              \<and> (py_getitem0 v = Inr data \<longrightarrow>
                  (generate_adaptive_card data = Inl e \<longrightarrow>
                     fst (main env net) = Uncaught e)
                  \<and> (generate_adaptive_card data = Inr card_payload \<longrightarrow>
                      (webhook_reply net = Inr r \<longrightarrow> fst (main env net) = Exit 0)
                      \<and> (webhook_reply net = Inl e \<and> is_RequestException e \<longrightarrow>
                           fst (main env net) = Exit 0)
                      \<and> (webhook_reply net = Inl e \<and> \<not> is_RequestException e \<longrightarrow>
                           fst (main env net) = Uncaught e)))))"
  proof (intro impI)
    assume cfg: "WEBHOOK_URL env = Some url \<and> url \<noteq> [] \<and> GTA_API_KEY env = Some key \<and> key \<noteq> []"
    then have m: "main env net = relay url key net"
      using main_configured [of env url key net] by simp
    have raised: "fst (get_interventions (api_reply net) key) = Inl e \<longrightarrow>
         fst (main env net) = Uncaught e"
      using relay_fetch_raises [of net key e url] m by simp
    have fetched: "fst (get_interventions (api_reply net) key) = Inr v \<longrightarrow>
          (py_len v = Inl e \<longrightarrow> fst (main env net) = Uncaught e)
          \<and> (py_len v = Inr 0 \<longrightarrow> fst (main env net) = Exit 0)
          \<and> (py_len v = Inr n \<and> n \<noteq> 0 \<longrightarrow>
              (py_getitem0 v = Inl e \<longrightarrow> fst (main env net) = Uncaught e)
              \<and> (py_getitem0 v = Inr data \<longrightarrow>
                  (generate_adaptive_card data = Inl e \<longrightarrow>
                     fst (main env net) = Uncaught e)
                  \<and> (generate_adaptive_card data = Inr card_payload \<longrightarrow>
                      (webhook_reply net = Inr r \<longrightarrow> fst (main env net) = Exit 0)
                      \<and> (webhook_reply net = Inl e \<and> is_RequestException e \<longrightarrow>
                           fst (main env net) = Exit 0)
                      \<and> (webhook_reply net = Inl e \<and> \<not> is_RequestException e \<longrightarrow>
                           fst (main env net) = Uncaught e))))"
    proof
      assume "fst (get_interventions (api_reply net) key) = Inr v"
      from relay_outcome [OF this, of url] m
      have o: "fst (main env net) =
        (case py_len v of
           Inl e \<Rightarrow> Uncaught e
         | Inr n \<Rightarrow>
             if n = 0 then Exit 0
             else (case py_getitem0 v of
                     Inl e \<Rightarrow> Uncaught e
                   | Inr d \<Rightarrow>
                       (case generate_adaptive_card d of
                          Inl e \<Rightarrow> Uncaught e
                        | Inr payload \<Rightarrow>
                            (case fst (send_teams_message (webhook_reply net) url payload) of
                               Inl e \<Rightarrow> Uncaught e
                             | Inr res \<Rightarrow> Exit 0))))"
        by simp
      show "(py_len v = Inl e \<longrightarrow> fst (main env net) = Uncaught e)
          \<and> (py_len v = Inr 0 \<longrightarrow> fst (main env net) = Exit 0)
          \<and> (py_len v = Inr n \<and> n \<noteq> 0 \<longrightarrow>
              (py_getitem0 v = Inl e \<longrightarrow> fst (main env net) = Uncaught e)
              \<and> (py_getitem0 v = Inr data \<longrightarrow>
                  (generate_adaptive_card data = Inl e \<longrightarrow>
                     fst (main env net) = Uncaught e)
                  \<and> (generate_adaptive_card data = Inr card_payload \<longrightarrow>
                      (webhook_reply net = Inr r \<longrightarrow> fst (main env net) = Exit 0)
                      \<and> (webhook_reply net = Inl e \<and> is_RequestException e \<longrightarrow>
                           fst (main env net) = Exit 0)
                      \<and> (webhook_reply net = Inl e \<and> \<not> is_RequestException e \<longrightarrow>
                           fst (main env net) = Uncaught e))))"
        unfolding o by (simp add: send_result)
    qed
    show "(fst (get_interventions (api_reply net) key) = Inl e \<longrightarrow>
         fst (main env net) = Uncaught e)
      \<and> (fst (get_interventions (api_reply net) key) = Inr v \<longrightarrow>
          (py_len v = Inl e \<longrightarrow> fst (main env net) = Uncaught e)
          \<and> (py_len v = Inr 0 \<longrightarrow> fst (main env net) = Exit 0)
          \<and> (py_len v = Inr n \<and> n \<noteq> 0 \<longrightarrow>
              (py_getitem0 v = Inl e \<longrightarrow> fst (main env net) = Uncaught e)
              \<and> (py_getitem0 v = Inr data \<longrightarrow>
                  (generate_adaptive_card data = Inl e \<longrightarrow>
                     fst (main env net) = Uncaught e)
                  \<and> (generate_adaptive_card data = Inr card_payload \<longrightarrow>
                      (webhook_reply net = Inr r \<longrightarrow> fst (main env net) = Exit 0)
                      \<and> (webhook_reply net = Inl e \<and> is_RequestException e \<longrightarrow>
                           fst (main env net) = Exit 0)
                      \<and> (webhook_reply net = Inl e \<and> \<not> is_RequestException e \<longrightarrow>
                           fst (main env net) = Uncaught e)))))"
      using raised fetched by (rule conjI)
  qed
  show ?thesis
    by (rule conjI [OF a conjI [OF b conjI [OF c d]]])
qed

theorem exit_codes_witness:
  "fst (main \<lparr>WEBHOOK_URL = None, GTA_API_KEY = Some ''k''\<rparr>
             \<lparr>api_reply = Inl (RequestException ''unused''),
              webhook_reply = Inl (RequestException ''unused'')\<rparr>) = Exit 1
   \<and> fst (main \<lparr>WEBHOOK_URL = Some ''https://h.example/w'', GTA_API_KEY = Some []\<rparr>
             \<lparr>api_reply = Inl (RequestException ''unused''),
              webhook_reply = Inl (RequestException ''unused'')\<rparr>) = Exit 1
   \<and> fst (main \<lparr>WEBHOOK_URL = Some ''https://h.example/w'', GTA_API_KEY = Some ''k''\<rparr>
             \<lparr>api_reply = Inr \<lparr>status_code = 401, reason = ''Unauthorized'',
                                 resp_url = api_url, resp_text = ''no'',
                                 json_result = Inl (OtherError ''not JSON'')\<rparr>,
              webhook_reply = Inl (RequestException ''unused'')\<rparr>) = Exit 0
   \<and> fst (main \<lparr>WEBHOOK_URL = Some ''https://h.example/w'', GTA_API_KEY = Some ''k''\<rparr>
             \<lparr>api_reply = Inr \<lparr>status_code = 200, reason = ''OK'',
                                 resp_url = api_url, resp_text = ''[{}]'',
                                 json_result = Inr (JList [JDict []])\<rparr>,
              webhook_reply = Inl (RequestException ''Connection refused'')\<rparr>) = Exit 0
   \<and> fst (main \<lparr>WEBHOOK_URL = Some ''https://h.example/w'', GTA_API_KEY = Some ''k''\<rparr>
             \<lparr>api_reply = Inr \<lparr>status_code = 200, reason = ''OK'',
                                 resp_url = api_url, resp_text = ''[{}]'',
                                 json_result = Inr (JList [JDict []])\<rparr>,
              webhook_reply = Inr \<lparr>status_code = 200, reason = ''OK'',
                                 resp_url = ''https://h.example/w'', resp_text = ''1'',
                                 json_result = Inr (JInt 1)\<rparr>\<rparr>) = Exit 0
   \<and> fst (main \<lparr>WEBHOOK_URL = Some ''https://h.example/w'', GTA_API_KEY = Some ''k''\<rparr>
             \<lparr>api_reply = Inr \<lparr>status_code = 200, reason = ''OK'',
                                 resp_url = api_url, resp_text = ''[null]'',
                                 json_result = Inr (JList [JNull])\<rparr>,
              webhook_reply = Inl (RequestException ''unused'')\<rparr>) = Uncaught AttributeError"
proof -
  let ?down = "\<lparr>api_reply = Inl (RequestException ''unused''),
                webhook_reply = Inl (RequestException ''unused'')\<rparr>"
  let ?env = "\<lparr>WEBHOOK_URL = Some ''https://h.example/w'', GTA_API_KEY = Some ''k''\<rparr>"
  let ?net401 = "\<lparr>api_reply = Inr \<lparr>status_code = 401, reason = ''Unauthorized'',
                                 resp_url = api_url, resp_text = ''no'',
                                 json_result = Inl (OtherError ''not JSON'')\<rparr>,
              webhook_reply = Inl (RequestException ''unused'')\<rparr>"
  let ?net200 = "\<lparr>api_reply = Inr \<lparr>status_code = 200, reason = ''OK'',
                                 resp_url = api_url, resp_text = ''[{}]'',
                                 json_result = Inr (JList [JDict []])\<rparr>,
              webhook_reply = Inl (RequestException ''Connection refused'')\<rparr>"
  let ?r200 = "\<lparr>status_code = 200, reason = ''OK'',
                 resp_url = ''https://h.example/w'', resp_text = ''1'',
                 json_result = Inr (JInt 1)\<rparr>"
  let ?sent = "\<lparr>api_reply = Inr \<lparr>status_code = 200, reason = ''OK'',
                                 resp_url = api_url, resp_text = ''[{}]'',
                                 json_result = Inr (JList [JDict []])\<rparr>,
              webhook_reply = Inr ?r200\<rparr>"
  let ?null = "\<lparr>api_reply = Inr \<lparr>status_code = 200, reason = ''OK'',
                                 resp_url = api_url, resp_text = ''[null]'',
                                 json_result = Inr (JList [JNull])\<rparr>,
              webhook_reply = Inl (RequestException ''unused'')\<rparr>"
  let ?payload = "message (card (JStr ''N/A'') (JStr ''#'') (JStr ''N/A'') ''default''
            ''Not In Force'' ''attention'' (JStr ''N/A'') (JStr ''N/A'') (JStr ''N/A'')
            (JStr ''N/A'') 0 0 ''N/A'' ''N/A'')"
  have 1: "fst (main \<lparr>WEBHOOK_URL = None, GTA_API_KEY = Some ''k''\<rparr> ?down) = Exit 1"
    using exit_codes [where env = "\<lparr>WEBHOOK_URL = None, GTA_API_KEY = Some ''k''\<rparr>"
                        and net = ?down]
    by simp
  have 2: "fst (main \<lparr>WEBHOOK_URL = Some ''https://h.example/w'', GTA_API_KEY = Some []\<rparr> ?down)
             = Exit 1"
    using exit_codes [where env = "\<lparr>WEBHOOK_URL = Some ''https://h.example/w'',
                                     GTA_API_KEY = Some []\<rparr>" and net = ?down]
    by simp
  have 3: "fst (main ?env ?net401) = Exit 0"
    using exit_codes [where env = ?env and net = ?net401 and url = "''https://h.example/w''"
                        and key = "''k''"]
    by (simp add: get_interventions_not_200)
  have 4: "fst (main ?env ?net200) = Exit 0"
    using exit_codes [where env = ?env and net = ?net200 and url = "''https://h.example/w''"
                        and key = "''k''" and d = "JDict []" and ds = "[]"
                        and payload = ?payload]
    by (simp add: get_interventions_200 empty_record_card send_contains_exception)
  have 5: "fst (main ?env ?sent) = Exit 0"
    using exit_codes [where env = ?env and net = ?sent and url = "''https://h.example/w''"
                        and key = "''k''" and v = "JList [JDict []]" and n = 1
                        and data = "JDict []" and card_payload = ?payload and r = ?r200]
    by (simp add: get_interventions_200 empty_record_card)
  have 6: "fst (main ?env ?null) = Uncaught AttributeError"
    using exit_codes [where env = ?env and net = ?null and url = "''https://h.example/w''"
                        and key = "''k''" and v = "JList [JNull]" and n = 1
                        and data = JNull and e = AttributeError]
    by (simp add: get_interventions_200 generate_adaptive_card_def ebind_def)
  show ?thesis
    by (rule conjI [OF 1 conjI [OF 2 conjI [OF 3 conjI [OF 4 conjI [OF 5 6]]]]])
qed

text \<open>
  With both variables set and the connection to the API refused, the exception of the
  fetch ends the run: the interpreter exits with status 1, not 0.
\<close>

theorem exit_code_counterexample:
  "\<not> missing (WEBHOOK_URL \<lparr>WEBHOOK_URL = Some ''https://h.example/w'', GTA_API_KEY = Some ''k''\<rparr>)
   \<and> \<not> missing (GTA_API_KEY \<lparr>WEBHOOK_URL = Some ''https://h.example/w'', GTA_API_KEY = Some ''k''\<rparr>)
   \<and> fst (main \<lparr>WEBHOOK_URL = Some ''https://h.example/w'', GTA_API_KEY = Some ''k''\<rparr>
             \<lparr>api_reply = Inl (RequestException ''Connection refused''),
              webhook_reply = Inl (RequestException ''unused'')\<rparr>)
       = Uncaught (RequestException ''Connection refused'')
   \<and> exit_code (fst (main \<lparr>WEBHOOK_URL = Some ''https://h.example/w'', GTA_API_KEY = Some ''k''\<rparr>
             \<lparr>api_reply = Inl (RequestException ''Connection refused''),
              webhook_reply = Inl (RequestException ''unused'')\<rparr>)) \<noteq> 0"
  by (simp add: main_def relay_def get_interventions_def ebind_def)

text \<open>
  C9. In a run with both variables set in which the fetch returns a non-empty list, the
  builder is called once, on the first record. If it raises, the run ends there with
  nothing sent. If it returns a card, that card is printed and handed to the sender,
  which posts it once to the webhook; only log records follow. So a run makes at most
  two requests, the fetch and one webhook call, and the records after the first play no
  part: a run whose fetch returns the same first record followed by other records is the
  same run.
\<close>

theorem first_record_only:
  assumes "WEBHOOK_URL env = Some url" and "url \<noteq> []"
      and "GTA_API_KEY env = Some key" and "key \<noteq> []"
      and "fst (get_interventions (api_reply net) key) = Inr (JList (d # ds))"
  shows "(\<forall>e. generate_adaptive_card d = Inl e \<longrightarrow>
            main env net = (Uncaught e, [api_post key, CallBuilder d]))
         \<and> (\<forall>payload. generate_adaptive_card d = Inr payload \<longrightarrow>
            (\<exists>logs. list_all is_LogRecord logs
               \<and> snd (main env net) =
                   [api_post key, CallBuilder d, Stdout payload, CallSender url payload,
                    webhook_post url payload] @ logs))
         \<and> length (filter is_HttpPost (snd (main env net))) \<le> 2
         \<and> (webhook_reply net' = webhook_reply net
             \<and> fst (get_interventions (api_reply net') key) = Inr (JList (d # ds')) \<longrightarrow>
            main env net' = main env net)"
proof -
  have m: "main env net = relay url key net" for net
    using main_configured [OF assms(1-4)] .
  have a: "\<forall>e. generate_adaptive_card d = Inl e \<longrightarrow>
            main env net = (Uncaught e, [api_post key, CallBuilder d])"
    using relay_builder_raises [OF assms(5)] m by simp
  have b: "\<forall>payload. generate_adaptive_card d = Inr payload \<longrightarrow>
            (\<exists>logs. list_all is_LogRecord logs
               \<and> snd (main env net) =
                   [api_post key, CallBuilder d, Stdout payload, CallSender url payload,
                    webhook_post url payload] @ logs)"
    using relay_sends [OF assms(5)] m by simp
  have c: "length (filter is_HttpPost (snd (main env net))) \<le> 2"
  proof (cases "generate_adaptive_card d")
    case (Inl e)
    then show ?thesis using a by (simp add: api_post_def)
  next
    case (Inr payload)
    then obtain logs where "list_all is_LogRecord logs"
      and "snd (main env net) =
             [api_post key, CallBuilder d, Stdout payload, CallSender url payload,
              webhook_post url payload] @ logs"
      using b by blast
    then show ?thesis
      using logs_no_posts [of logs] by (simp add: api_post_def webhook_post_def)
  qed
  have d: "webhook_reply net' = webhook_reply net
             \<and> fst (get_interventions (api_reply net') key) = Inr (JList (d # ds')) \<longrightarrow>
            main env net' = main env net"
    using relay_first_only [OF assms(5), of net' ds' url] m by simp
  show ?thesis using a b c d by blast
qed

theorem first_record_only_witness:
  "(\<exists>logs. list_all is_LogRecord logs
      \<and> snd (main \<lparr>WEBHOOK_URL = Some ''https://h.example/w'', GTA_API_KEY = Some ''k''\<rparr>
                 \<lparr>api_reply = Inr \<lparr>status_code = 200, reason = ''OK'', resp_url = api_url,
                                     resp_text = ''[{}, null]'',
                                     json_result = Inr (JList [JDict [], JNull])\<rparr>,
                  webhook_reply = Inr \<lparr>status_code = 200, reason = ''OK'',
                                     resp_url = ''https://h.example/w'', resp_text = ''1'',
                                     json_result = Inr (JInt 1)\<rparr>\<rparr>)
          = [api_post ''k'', CallBuilder (JDict []),
             Stdout (message (card (JStr ''N/A'') (JStr ''#'') (JStr ''N/A'') ''default''
               ''Not In Force'' ''attention'' (JStr ''N/A'') (JStr ''N/A'') (JStr ''N/A'')
               (JStr ''N/A'') 0 0 ''N/A'' ''N/A'')),
             CallSender ''https://h.example/w''
               (message (card (JStr ''N/A'') (JStr ''#'') (JStr ''N/A'') ''default''
               ''Not In Force'' ''attention'' (JStr ''N/A'') (JStr ''N/A'') (JStr ''N/A'')
               (JStr ''N/A'') 0 0 ''N/A'' ''N/A'')),
             webhook_post ''https://h.example/w''
               (message (card (JStr ''N/A'') (JStr ''#'') (JStr ''N/A'') ''default''
               ''Not In Force'' ''attention'' (JStr ''N/A'') (JStr ''N/A'') (JStr ''N/A'')
               (JStr ''N/A'') 0 0 ''N/A'' ''N/A''))] @ logs)"
proof -
  let ?env = "\<lparr>WEBHOOK_URL = Some ''https://h.example/w'', GTA_API_KEY = Some ''k''\<rparr>"
  let ?net = "\<lparr>api_reply = Inr \<lparr>status_code = 200, reason = ''OK'', resp_url = api_url,
                                     resp_text = ''[{}, null]'',
                                     json_result = Inr (JList [JDict [], JNull])\<rparr>,
                  webhook_reply = Inr \<lparr>status_code = 200, reason = ''OK'',
                                     resp_url = ''https://h.example/w'', resp_text = ''1'',
                                     json_result = Inr (JInt 1)\<rparr>\<rparr>"
  have h1: "WEBHOOK_URL ?env = Some ''https://h.example/w''" by simp
  have h2: "''https://h.example/w'' \<noteq> []" by simp
  have h3: "GTA_API_KEY ?env = Some ''k''" by simp
  have h4: "''k'' \<noteq> []" by simp
  have h5: "fst (get_interventions (api_reply ?net) ''k'') = Inr (JList (JDict [] # [JNull]))"
    by (simp add: get_interventions_200)
  show ?thesis
    using first_record_only [OF h1 h2 h3 h4 h5] empty_record_card by simp
qed

section \<open>Cards\<close>

lemma builder_returns_iff:
  "generate_adaptive_card (JDict kvs) = Inr doc \<longleftrightarrow>
   (\<exists>inames anames di da sc np ns.
      names_of (dict_get kvs ''implementing_jurisdictions'' (JList [])) = Inr inames
    \<and> names_of (dict_get kvs ''affected_jurisdictions'' (JList [])) = Inr anames
    \<and> display_names inames = Inr di
    \<and> display_names anames = Inr da
    \<and> color_map_get (dict_get kvs ''gta_evaluation'' (JStr ''N/A'')) ''default'' = Inr sc
    \<and> py_len (dict_get kvs ''affected_products'' (JList [])) = Inr np
    \<and> py_len (dict_get kvs ''affected_sectors'' (JList [])) = Inr ns
    \<and> doc = message
        (card (dict_get kvs ''state_act_title'' (JStr ''N/A''))
           (dict_get kvs ''intervention_url'' (JStr ''#''))
           (dict_get kvs ''gta_evaluation'' (JStr ''N/A'')) sc
           (if truthy (dict_get kvs ''is_in_force'' (JInt 0)) then ''In Force''
            else ''Not In Force'')
           (if truthy (dict_get kvs ''is_in_force'' (JInt 0)) then ''good'' else ''attention'')
           (dict_get kvs ''intervention_type'' (JStr ''N/A''))
           (dict_get kvs ''mast_chapter'' (JStr ''N/A''))
           (dict_get kvs ''implementation_level'' (JStr ''N/A''))
           (dict_get kvs ''date_implemented'' (JStr ''N/A''))
           np ns di da))"
  by (auto simp add: generate_adaptive_card_def ebind_def Let_def split: sum.splits)

lemma lookup_title:
  "lookup (message (card t u e sc fs fc it mc il dt np ns di da)) title_path = Some t"
  by (simp add: message_def card_def title_path_def body_path_def)

lemma lookup_evaluation:
  "lookup (message (card t u e sc fs fc it mc il dt np ns di da)) evaluation_path
     = Some (JStr (''GTA Evaluation: '' @ py_str e))"
  by (simp add: message_def card_def evaluation_path_def body_path_def)

lemma lookup_status_color:
  "lookup (message (card t u e sc fs fc it mc il dt np ns di da)) status_color_path
     = Some (JStr sc)"
  by (simp add: message_def card_def status_color_path_def body_path_def)

lemma lookup_force_status:
  "lookup (message (card t u e sc fs fc it mc il dt np ns di da)) force_status_path
     = Some (JStr (''Status: '' @ fs))"
  by (simp add: message_def card_def force_status_path_def body_path_def)

lemma lookup_force_color:
  "lookup (message (card t u e sc fs fc it mc il dt np ns di da)) force_color_path
     = Some (JStr fc)"
  by (simp add: message_def card_def force_color_path_def body_path_def)

lemma lookup_facts:
  "lookup (message (card t u e sc fs fc it mc il dt np ns di da)) (fact_path 0) = Some it"
  "lookup (message (card t u e sc fs fc it mc il dt np ns di da)) (fact_path 1) = Some mc"
  "lookup (message (card t u e sc fs fc it mc il dt np ns di da)) (fact_path 2) = Some il"
  "lookup (message (card t u e sc fs fc it mc il dt np ns di da)) (fact_path 3) = Some dt"
  "lookup (message (card t u e sc fs fc it mc il dt np ns di da)) (fact_path 4)
     = Some (JStr (str_of_nat np @ '' product(s)''))"
  "lookup (message (card t u e sc fs fc it mc il dt np ns di da)) (fact_path 5)
     = Some (JStr (str_of_nat ns @ '' sector(s)''))"
  by (simp_all add: message_def card_def fact_path_def body_path_def)

lemma lookup_display_implementer:
  "lookup (message (card t u e sc fs fc it mc il dt np ns di da)) display_implementer_path
     = Some (JStr di)"
  by (simp add: message_def card_def display_implementer_path_def body_path_def)

lemma lookup_display_affected:
  "lookup (message (card t u e sc fs fc it mc il dt np ns di da)) display_affected_path
     = Some (JStr da)"
  by (simp add: message_def card_def display_affected_path_def body_path_def)

lemma lookup_url:
  "lookup (message (card t u e sc fs fc it mc il dt np ns di da)) url_path = Some u"
  by (simp add: message_def card_def url_path_def body_path_def)


lemma entry_name_get:
  "entry_name e = Some n \<Longrightarrow> py_get e ''name'' (JStr ''N/A'') = Inr (JStr n)"
  by (cases e) (auto simp add: dict_get_def split: option.splits json.splits)

lemma emap_names:
  "map entry_name es = map Some names \<Longrightarrow>
   emap (\<lambda>i. py_get i ''name'' (JStr ''N/A'')) es = Inr (map JStr names)"
proof (induction es arbitrary: names)
  case Nil
  then show ?case by simp
next
  case (Cons e es)
  then obtain n ns where names: "names = n # ns" and e: "entry_name e = Some n"
    and rest: "map entry_name es = map Some ns"
    by (cases names) auto
  show ?case
    using Cons.IH [OF rest] entry_name_get [OF e] names by (simp add: ebind_def)
qed

lemma names_of_list:
  "map entry_name es = map Some names \<Longrightarrow> names_of (JList es) = Inr (map JStr names)"
  by (simp add: names_of_def ebind_def emap_names)

lemma strs_of_strings: "strs_of (map JStr names) = Inr names"
  by (induction names) (simp_all add: ebind_def)

lemma py_join_strings: "py_join sep (map JStr names) = Inr (join sep names)"
  by (simp add: py_join_def ebind_def strs_of_strings)

lemma display_names_strings: "display_names (map JStr names) = Inr (spec_display names)"
proof -
  have "py_join '', '' (take 5 (map JStr names)) = Inr (join '', '' (take 5 names))"
    using py_join_strings [of "'', ''" "take 5 names"] by (simp add: take_map)
  then show ?thesis
    by (cases names) (auto simp add: display_names_def spec_display_def ebind_def py_join_strings)
qed

lemma jurisdictions_named:
  "jurisdictions_ok v \<Longrightarrow> \<exists>es names. v = JList es \<and> map entry_name es = map Some names"
proof (cases v)
  case (JList es)
  assume "jurisdictions_ok v"
  with JList have "list_all (\<lambda>e. entry_name e \<noteq> None) es" by simp
  then have "map entry_name es = map Some (map (\<lambda>e. the (entry_name e)) es)"
    by (induction es) auto
  with JList show ?thesis by blast
qed auto

lemma color_map_get_value:
  "color_map_get v ''default'' = Inr sc \<Longrightarrow>
   sc = (if v = JStr ''Red'' then ''attention''
         else if v = JStr ''Amber'' then ''warning''
         else if v = JStr ''Green'' then ''good''
         else ''default'')"
  by (cases v) (auto simp add: color_map_get_def color_map_def split: if_splits)

lemma color_map_get_hashable:
  "hashable v \<Longrightarrow> \<exists>sc. color_map_get v ''default'' = Inr sc"
  by (cases v) (auto simp add: color_map_get_def split: option.splits)

lemma py_len_list: "is_list v \<Longrightarrow> \<exists>n. py_len v = Inr n"
  by (cases v) auto

lemma str_of_nat_0: "str_of_nat 0 = ''0''"
  by (simp add: str_of_nat.simps digit_char_def)

lemma record_ok_builds:
  assumes "record_ok kvs"
  shows "\<exists>doc. generate_adaptive_card (JDict kvs) = Inr doc"
proof -
  obtain es names where i: "dict_get kvs ''implementing_jurisdictions'' (JList []) = JList es"
      "map entry_name es = map Some names"
    using assms jurisdictions_named unfolding record_ok_def by blast
  obtain es' names' where a: "dict_get kvs ''affected_jurisdictions'' (JList []) = JList es'"
      "map entry_name es' = map Some names'"
    using assms jurisdictions_named unfolding record_ok_def by blast
  obtain sc where c: "color_map_get (dict_get kvs ''gta_evaluation'' (JStr ''N/A'')) ''default'' = Inr sc"
    using assms color_map_get_hashable unfolding record_ok_def by blast
  obtain np where p: "py_len (dict_get kvs ''affected_products'' (JList [])) = Inr np"
    using assms py_len_list unfolding record_ok_def by blast
  obtain ns where s: "py_len (dict_get kvs ''affected_sectors'' (JList [])) = Inr ns"
    using assms py_len_list unfolding record_ok_def by blast
  show ?thesis
    unfolding builder_returns_iff
    using i a c p s names_of_list display_names_strings by auto
qed


text \<open>
  C1. Whenever the builder returns a card for a record, the two display strings in the
  card are as the specification derives them from the jurisdiction lists. If the list of
  implementing jurisdictions (the empty list when the field is absent) is a list of
  entries with the names \<open>names\<close>, \<open>N/A\<close> standing for an entry without the \<open>name\<close>
  key, then \<open>display_implementer\<close> is: the first 5 names joined by \<open>", "\<close> followed by
  \<open>", and k more."\<close> with \<open>k\<close> the count less 5, when there are more than 5; all the
  names joined by \<open>", "\<close> when there are 1 to 5; the literal \<open>N/A\<close> when there is none.
  The same holds of \<open>display_affected\<close> and the affected jurisdictions.
\<close>

theorem display_strings:
  assumes "generate_adaptive_card (JDict kvs) = Inr doc"
  shows "(dict_get kvs ''implementing_jurisdictions'' (JList []) = JList es
            \<and> map entry_name es = map Some names \<longrightarrow>
          lookup doc display_implementer_path = Some (JStr (spec_display names)))
       \<and> (dict_get kvs ''affected_jurisdictions'' (JList []) = JList es'
            \<and> map entry_name es' = map Some names' \<longrightarrow>
          lookup doc display_affected_path = Some (JStr (spec_display names')))"
proof -
  obtain inames anames di da sc np ns t u e fs fc it mc il dt where
      i: "names_of (dict_get kvs ''implementing_jurisdictions'' (JList [])) = Inr inames"
    and a: "names_of (dict_get kvs ''affected_jurisdictions'' (JList [])) = Inr anames"
    and di: "display_names inames = Inr di"
    and da: "display_names anames = Inr da"
    and doc: "doc = message (card t u e sc fs fc it mc il dt np ns di da)"
    using assms unfolding builder_returns_iff by blast
  have 1: "lookup doc display_implementer_path = Some (JStr (spec_display names))"
    if "dict_get kvs ''implementing_jurisdictions'' (JList []) = JList es"
      and "map entry_name es = map Some names"
  proof -
    have "inames = map JStr names"
      using i that names_of_list [of es names] by simp
    then have "di = spec_display names"
      using di display_names_strings [of names] by simp
    then show ?thesis
      using doc lookup_display_implementer by simp
  qed
  have 2: "lookup doc display_affected_path = Some (JStr (spec_display names'))"
    if "dict_get kvs ''affected_jurisdictions'' (JList []) = JList es'"
      and "map entry_name es' = map Some names'"
  proof -
    have "anames = map JStr names'"
      using a that names_of_list [of es' names'] by simp
    then have "da = spec_display names'"
      using da display_names_strings [of names'] by simp
    then show ?thesis
      using doc lookup_display_affected by simp
  qed
  show ?thesis using 1 2 by blast
qed

theorem display_strings_witness:
  "\<exists>doc. generate_adaptive_card
       (JDict [(''implementing_jurisdictions'',
                JList [JDict [(''name'', JStr ''A'')], JDict [(''name'', JStr ''B'')],
                       JDict [(''name'', JStr ''C'')], JDict [(''name'', JStr ''D'')],
                       JDict [(''id'', JInt 5)], JDict [(''name'', JStr ''F'')],
                       JDict [(''name'', JStr ''G'')]]),
               (''affected_jurisdictions'',
                JList [JDict [(''name'', JStr ''X'')], JDict [(''name'', JStr ''Y'')]])])
       = Inr doc
     \<and> lookup doc display_implementer_path = Some (JStr ''A, B, C, D, N/A, and 2 more.'')
     \<and> lookup doc display_affected_path = Some (JStr ''X, Y'')"
proof -
  let ?kvs = "[(''implementing_jurisdictions'',
                JList [JDict [(''name'', JStr ''A'')], JDict [(''name'', JStr ''B'')],
                       JDict [(''name'', JStr ''C'')], JDict [(''name'', JStr ''D'')],
                       JDict [(''id'', JInt 5)], JDict [(''name'', JStr ''F'')],
                       JDict [(''name'', JStr ''G'')]]),
               (''affected_jurisdictions'',
                JList [JDict [(''name'', JStr ''X'')], JDict [(''name'', JStr ''Y'')]])]"
  have "record_ok ?kvs"
    by (simp add: record_ok_def dict_get_def)
  then obtain doc where g: "generate_adaptive_card (JDict ?kvs) = Inr doc"
    using record_ok_builds by blast
  have "lookup doc display_implementer_path = Some (JStr ''A, B, C, D, N/A, and 2 more.'')
      \<and> lookup doc display_affected_path = Some (JStr ''X, Y'')"
    using display_strings [OF g,
            where es = "[JDict [(''name'', JStr ''A'')], JDict [(''name'', JStr ''B'')],
                       JDict [(''name'', JStr ''C'')], JDict [(''name'', JStr ''D'')],
                       JDict [(''id'', JInt 5)], JDict [(''name'', JStr ''F'')],
                       JDict [(''name'', JStr ''G'')]]"
              and names = "[''A'', ''B'', ''C'', ''D'', ''N/A'', ''F'', ''G'']"
              and es' = "[JDict [(''name'', JStr ''X'')], JDict [(''name'', JStr ''Y'')]]"
              and names' = "[''X'', ''Y'']"]
    by (simp add: dict_get_def spec_display_def str_of_nat.simps digit_char_def)
  with g show ?thesis by blast
qed

text \<open>
  C2. On every record whose fields are each absent or of the type the data model gives
  them, the empty record among them, the builder raises nothing and returns a card. In
  that card the placeholder stands wherever a scalar field is missing: \<open>N/A\<close> for the
  title, the evaluation, the intervention type, the MAST chapter, the implementation
  level and the date, \<open>#\<close> for the detail URL. A missing list of products or sectors is
  rendered as \<open>0 product(s)\<close> or \<open>0 sector(s)\<close>, a missing list of jurisdictions as
  \<open>N/A\<close>, and a missing in-force flag as \<open>Not In Force\<close>. The empty record, which
  misses every field, gets all of them.
\<close>

theorem absent_fields_tolerated:
  assumes "record_ok kvs"
  shows "\<exists>doc. generate_adaptive_card (JDict kvs) = Inr doc
    \<and> (map_of kvs ''state_act_title'' = None \<longrightarrow>
         lookup doc title_path = Some (JStr ''N/A''))
    \<and> (map_of kvs ''intervention_url'' = None \<longrightarrow>
         lookup doc url_path = Some (JStr ''#''))
    \<and> (map_of kvs ''gta_evaluation'' = None \<longrightarrow>
         lookup doc evaluation_path = Some (JStr ''GTA Evaluation: N/A''))
    \<and> (map_of kvs ''intervention_type'' = None \<longrightarrow>
         lookup doc (fact_path 0) = Some (JStr ''N/A''))
    \<and> (map_of kvs ''mast_chapter'' = None \<longrightarrow>
         lookup doc (fact_path 1) = Some (JStr ''N/A''))
    \<and> (map_of kvs ''implementation_level'' = None \<longrightarrow>
         lookup doc (fact_path 2) = Some (JStr ''N/A''))
    \<and> (map_of kvs ''date_implemented'' = None \<longrightarrow>
         lookup doc (fact_path 3) = Some (JStr ''N/A''))
    \<and> (map_of kvs ''affected_products'' = None \<longrightarrow>
         lookup doc (fact_path 4) = Some (JStr ''0 product(s)''))
    \<and> (map_of kvs ''affected_sectors'' = None \<longrightarrow>
         lookup doc (fact_path 5) = Some (JStr ''0 sector(s)''))
    \<and> (map_of kvs ''implementing_jurisdictions'' = None \<longrightarrow>
         lookup doc display_implementer_path = Some (JStr ''N/A''))
    \<and> (map_of kvs ''affected_jurisdictions'' = None \<longrightarrow>
         lookup doc display_affected_path = Some (JStr ''N/A''))
    \<and> (map_of kvs ''is_in_force'' = None \<longrightarrow>
         lookup doc force_status_path = Some (JStr ''Status: Not In Force''))"
proof -
  obtain doc where g: "generate_adaptive_card (JDict kvs) = Inr doc"
    using record_ok_builds [OF assms] by blast
  then obtain inames anames di da sc np ns where
      i: "names_of (dict_get kvs ''implementing_jurisdictions'' (JList [])) = Inr inames"
    and a: "names_of (dict_get kvs ''affected_jurisdictions'' (JList [])) = Inr anames"
    and di: "display_names inames = Inr di"
    and da: "display_names anames = Inr da"
    and np: "py_len (dict_get kvs ''affected_products'' (JList [])) = Inr np"
    and ns: "py_len (dict_get kvs ''affected_sectors'' (JList [])) = Inr ns"
    and doc: "doc = message
        (card (dict_get kvs ''state_act_title'' (JStr ''N/A''))
           (dict_get kvs ''intervention_url'' (JStr ''#''))
           (dict_get kvs ''gta_evaluation'' (JStr ''N/A'')) sc
           (if truthy (dict_get kvs ''is_in_force'' (JInt 0)) then ''In Force''
            else ''Not In Force'')
           (if truthy (dict_get kvs ''is_in_force'' (JInt 0)) then ''good'' else ''attention'')
           (dict_get kvs ''intervention_type'' (JStr ''N/A''))
           (dict_get kvs ''mast_chapter'' (JStr ''N/A''))
           (dict_get kvs ''implementation_level'' (JStr ''N/A''))
           (dict_get kvs ''date_implemented'' (JStr ''N/A''))
           np ns di da)"
    unfolding builder_returns_iff by blast
  have title: "map_of kvs ''state_act_title'' = None \<longrightarrow>
      lookup doc title_path = Some (JStr ''N/A'')"
    unfolding doc lookup_title by (simp add: dict_get_def)
  have url: "map_of kvs ''intervention_url'' = None \<longrightarrow> lookup doc url_path = Some (JStr ''#'')"
    unfolding doc lookup_url by (simp add: dict_get_def)
  have evaluation: "map_of kvs ''gta_evaluation'' = None \<longrightarrow>
       lookup doc evaluation_path = Some (JStr ''GTA Evaluation: N/A'')"
    unfolding doc lookup_evaluation by (simp add: dict_get_def)
  have itype: "map_of kvs ''intervention_type'' = None \<longrightarrow>
      lookup doc (fact_path 0) = Some (JStr ''N/A'')"
    unfolding doc lookup_facts by (simp add: dict_get_def)
  have mchapter: "map_of kvs ''mast_chapter'' = None \<longrightarrow>
      lookup doc (fact_path 1) = Some (JStr ''N/A'')"
    unfolding doc lookup_facts by (simp add: dict_get_def)
  have level: "map_of kvs ''implementation_level'' = None \<longrightarrow>
      lookup doc (fact_path 2) = Some (JStr ''N/A'')"
    unfolding doc lookup_facts by (simp add: dict_get_def)
  have date: "map_of kvs ''date_implemented'' = None \<longrightarrow>
      lookup doc (fact_path 3) = Some (JStr ''N/A'')"
    unfolding doc lookup_facts by (simp add: dict_get_def)
  have products: "map_of kvs ''affected_products'' = None \<longrightarrow>
         lookup doc (fact_path 4) = Some (JStr ''0 product(s)'')"
    using np unfolding doc lookup_facts by (auto simp add: dict_get_def str_of_nat_0)
  have sectors: "map_of kvs ''affected_sectors'' = None \<longrightarrow>
         lookup doc (fact_path 5) = Some (JStr ''0 sector(s)'')"
    using ns unfolding doc lookup_facts by (auto simp add: dict_get_def str_of_nat_0)
  have implementers: "map_of kvs ''implementing_jurisdictions'' = None \<longrightarrow>
         lookup doc display_implementer_path = Some (JStr ''N/A'')"
    using i di unfolding doc lookup_display_implementer
    by (auto simp add: dict_get_def names_of_def ebind_def display_names_def)
  have affected: "map_of kvs ''affected_jurisdictions'' = None \<longrightarrow>
         lookup doc display_affected_path = Some (JStr ''N/A'')"
    using a da unfolding doc lookup_display_affected
    by (auto simp add: dict_get_def names_of_def ebind_def display_names_def)
  have force: "map_of kvs ''is_in_force'' = None \<longrightarrow>
         lookup doc force_status_path = Some (JStr ''Status: Not In Force'')"
    unfolding doc lookup_force_status by (simp add: dict_get_def)
  show ?thesis
    by (intro exI [of _ doc] conjI)
       (fact g title url evaluation itype mchapter level date products sectors
             implementers affected force)+
qed

theorem absent_fields_tolerated_witness:
  "record_ok []
   \<and> (\<exists>doc. generate_adaptive_card (JDict []) = Inr doc
        \<and> lookup doc title_path = Some (JStr ''N/A'')
        \<and> lookup doc url_path = Some (JStr ''#'')
        \<and> lookup doc evaluation_path = Some (JStr ''GTA Evaluation: N/A'')
        \<and> lookup doc (fact_path 0) = Some (JStr ''N/A'')
        \<and> lookup doc (fact_path 1) = Some (JStr ''N/A'')
        \<and> lookup doc (fact_path 2) = Some (JStr ''N/A'')
        \<and> lookup doc (fact_path 3) = Some (JStr ''N/A'')
        \<and> lookup doc (fact_path 4) = Some (JStr ''0 product(s)'')
        \<and> lookup doc (fact_path 5) = Some (JStr ''0 sector(s)'')
        \<and> lookup doc display_implementer_path = Some (JStr ''N/A'')
        \<and> lookup doc display_affected_path = Some (JStr ''N/A'')
        \<and> lookup doc force_status_path = Some (JStr ''Status: Not In Force''))"
proof -
  have ok: "record_ok []"
    by (simp add: record_ok_def dict_get_def)
  show ?thesis
    using ok absent_fields_tolerated [OF ok] by simp
qed

text \<open>
  C3. The builder returns a card on every record of the data model, and whenever it
  returns a card for a record, the colour of the evaluation line is \<open>attention\<close> when
  the evaluation field is \<open>Red\<close>, \<open>warning\<close> when it is \<open>Amber\<close>, \<open>good\<close> when it is
  \<open>Green\<close>, and \<open>default\<close> when the field holds anything else or is absent.
\<close>

theorem status_color_mapping:
  "(record_ok kvs \<longrightarrow> (\<exists>d. generate_adaptive_card (JDict kvs) = Inr d))
   \<and> (generate_adaptive_card (JDict kvs) = Inr doc \<longrightarrow>
        (map_of kvs ''gta_evaluation'' = Some (JStr ''Red'') \<longrightarrow>
           lookup doc status_color_path = Some (JStr ''attention''))
      \<and> (map_of kvs ''gta_evaluation'' = Some (JStr ''Amber'') \<longrightarrow>
           lookup doc status_color_path = Some (JStr ''warning''))
      \<and> (map_of kvs ''gta_evaluation'' = Some (JStr ''Green'') \<longrightarrow>
           lookup doc status_color_path = Some (JStr ''good''))
      \<and> (map_of kvs ''gta_evaluation'' \<noteq> Some (JStr ''Red'')
           \<and> map_of kvs ''gta_evaluation'' \<noteq> Some (JStr ''Amber'')
           \<and> map_of kvs ''gta_evaluation'' \<noteq> Some (JStr ''Green'') \<longrightarrow>
           lookup doc status_color_path = Some (JStr ''default'')))"
proof -
  have total: "record_ok kvs \<longrightarrow> (\<exists>d. generate_adaptive_card (JDict kvs) = Inr d)"
    using record_ok_builds [of kvs] by blast
  have colour: "generate_adaptive_card (JDict kvs) = Inr doc \<longrightarrow>
        (map_of kvs ''gta_evaluation'' = Some (JStr ''Red'') \<longrightarrow>
           lookup doc status_color_path = Some (JStr ''attention''))
      \<and> (map_of kvs ''gta_evaluation'' = Some (JStr ''Amber'') \<longrightarrow>
           lookup doc status_color_path = Some (JStr ''warning''))
      \<and> (map_of kvs ''gta_evaluation'' = Some (JStr ''Green'') \<longrightarrow>
           lookup doc status_color_path = Some (JStr ''good''))
      \<and> (map_of kvs ''gta_evaluation'' \<noteq> Some (JStr ''Red'')
           \<and> map_of kvs ''gta_evaluation'' \<noteq> Some (JStr ''Amber'')
           \<and> map_of kvs ''gta_evaluation'' \<noteq> Some (JStr ''Green'') \<longrightarrow>
           lookup doc status_color_path = Some (JStr ''default''))"
  proof
    assume "generate_adaptive_card (JDict kvs) = Inr doc"
    then obtain sc t u fs fc it mc il dt np ns di da where
        c: "color_map_get (dict_get kvs ''gta_evaluation'' (JStr ''N/A'')) ''default'' = Inr sc"
      and doc: "doc = message (card t u (dict_get kvs ''gta_evaluation'' (JStr ''N/A'')) sc
                       fs fc it mc il dt np ns di da)"
      unfolding builder_returns_iff by blast
    have "lookup doc status_color_path = Some (JStr sc)"
      unfolding doc lookup_status_color ..
    then show "(map_of kvs ''gta_evaluation'' = Some (JStr ''Red'') \<longrightarrow>
           lookup doc status_color_path = Some (JStr ''attention''))
      \<and> (map_of kvs ''gta_evaluation'' = Some (JStr ''Amber'') \<longrightarrow>
           lookup doc status_color_path = Some (JStr ''warning''))
      \<and> (map_of kvs ''gta_evaluation'' = Some (JStr ''Green'') \<longrightarrow>
           lookup doc status_color_path = Some (JStr ''good''))
      \<and> (map_of kvs ''gta_evaluation'' \<noteq> Some (JStr ''Red'')
           \<and> map_of kvs ''gta_evaluation'' \<noteq> Some (JStr ''Amber'')
           \<and> map_of kvs ''gta_evaluation'' \<noteq> Some (JStr ''Green'') \<longrightarrow>
           lookup doc status_color_path = Some (JStr ''default''))"
      using color_map_get_value [OF c]
      by (cases "map_of kvs ''gta_evaluation''") (auto simp add: dict_get_def)
  qed
  show ?thesis by (rule conjI [OF total colour])
qed

theorem status_color_mapping_witness:
  "(\<exists>doc. generate_adaptive_card (JDict [(''gta_evaluation'', JStr ''Red'')]) = Inr doc
      \<and> lookup doc status_color_path = Some (JStr ''attention''))
   \<and> (\<exists>doc. generate_adaptive_card (JDict [(''gta_evaluation'', JStr ''Amber'')]) = Inr doc
      \<and> lookup doc status_color_path = Some (JStr ''warning''))
   \<and> (\<exists>doc. generate_adaptive_card (JDict [(''gta_evaluation'', JStr ''Green'')]) = Inr doc
      \<and> lookup doc status_color_path = Some (JStr ''good''))
   \<and> (\<exists>doc. generate_adaptive_card (JDict [(''gta_evaluation'', JStr ''Black'')]) = Inr doc
      \<and> lookup doc status_color_path = Some (JStr ''default''))
   \<and> (\<exists>doc. generate_adaptive_card (JDict [(''gta_evaluation'', JNull)]) = Inr doc
      \<and> lookup doc status_color_path = Some (JStr ''default''))
   \<and> (\<exists>doc. generate_adaptive_card (JDict []) = Inr doc
      \<and> lookup doc status_color_path = Some (JStr ''default''))"
proof -
  have 1: "\<exists>doc. generate_adaptive_card (JDict [(''gta_evaluation'', JStr ''Red'')]) = Inr doc
      \<and> lookup doc status_color_path = Some (JStr ''attention'')"
  proof -
    have "record_ok [(''gta_evaluation'', JStr ''Red'')]"
      by (simp add: record_ok_def dict_get_def)
    then obtain doc where g: "generate_adaptive_card (JDict [(''gta_evaluation'', JStr ''Red'')]) = Inr doc"
      using status_color_mapping [where kvs = "[(''gta_evaluation'', JStr ''Red'')]"] by blast
    have "lookup doc status_color_path = Some (JStr ''attention'')"
      using status_color_mapping [where kvs = "[(''gta_evaluation'', JStr ''Red'')]" and doc = doc] g by simp
    with g show ?thesis by blast
  qed
  have 2: "\<exists>doc. generate_adaptive_card (JDict [(''gta_evaluation'', JStr ''Amber'')]) = Inr doc
      \<and> lookup doc status_color_path = Some (JStr ''warning'')"
  proof -
    have "record_ok [(''gta_evaluation'', JStr ''Amber'')]"
      by (simp add: record_ok_def dict_get_def)
    then obtain doc where g: "generate_adaptive_card (JDict [(''gta_evaluation'', JStr ''Amber'')]) = Inr doc"
      using status_color_mapping [where kvs = "[(''gta_evaluation'', JStr ''Amber'')]"] by blast
    have "lookup doc status_color_path = Some (JStr ''warning'')"
      using status_color_mapping [where kvs = "[(''gta_evaluation'', JStr ''Amber'')]" and doc = doc] g by simp
    with g show ?thesis by blast
  qed
  have 3: "\<exists>doc. generate_adaptive_card (JDict [(''gta_evaluation'', JStr ''Green'')]) = Inr doc
      \<and> lookup doc status_color_path = Some (JStr ''good'')"
  proof -
    have "record_ok [(''gta_evaluation'', JStr ''Green'')]"
      by (simp add: record_ok_def dict_get_def)
    then obtain doc where g: "generate_adaptive_card (JDict [(''gta_evaluation'', JStr ''Green'')]) = Inr doc"
      using status_color_mapping [where kvs = "[(''gta_evaluation'', JStr ''Green'')]"] by blast
    have "lookup doc status_color_path = Some (JStr ''good'')"
      using status_color_mapping [where kvs = "[(''gta_evaluation'', JStr ''Green'')]" and doc = doc] g by simp
    with g show ?thesis by blast
  qed
  have 4: "\<exists>doc. generate_adaptive_card (JDict [(''gta_evaluation'', JStr ''Black'')]) = Inr doc
      \<and> lookup doc status_color_path = Some (JStr ''default'')"
  proof -
    have "record_ok [(''gta_evaluation'', JStr ''Black'')]"
      by (simp add: record_ok_def dict_get_def)
    then obtain doc where g: "generate_adaptive_card (JDict [(''gta_evaluation'', JStr ''Black'')]) = Inr doc"
      using status_color_mapping [where kvs = "[(''gta_evaluation'', JStr ''Black'')]"] by blast
    have "lookup doc status_color_path = Some (JStr ''default'')"
      using status_color_mapping [where kvs = "[(''gta_evaluation'', JStr ''Black'')]" and doc = doc] g by simp
    with g show ?thesis by blast
  qed
  have 5: "\<exists>doc. generate_adaptive_card (JDict [(''gta_evaluation'', JNull)]) = Inr doc
      \<and> lookup doc status_color_path = Some (JStr ''default'')"
  proof -
    have "record_ok [(''gta_evaluation'', JNull)]"
      by (simp add: record_ok_def dict_get_def)
    then obtain doc where g: "generate_adaptive_card (JDict [(''gta_evaluation'', JNull)]) = Inr doc"
      using status_color_mapping [where kvs = "[(''gta_evaluation'', JNull)]"] by blast
    have "lookup doc status_color_path = Some (JStr ''default'')"
      using status_color_mapping [where kvs = "[(''gta_evaluation'', JNull)]" and doc = doc] g by simp
    with g show ?thesis by blast
  qed
  have 6: "\<exists>doc. generate_adaptive_card (JDict []) = Inr doc
      \<and> lookup doc status_color_path = Some (JStr ''default'')"
  proof -
    have "record_ok []"
      by (simp add: record_ok_def dict_get_def)
    then obtain doc where g: "generate_adaptive_card (JDict []) = Inr doc"
      using status_color_mapping [where kvs = "[]"] by blast
    have "lookup doc status_color_path = Some (JStr ''default'')"
      using status_color_mapping [where kvs = "[]" and doc = doc] g by simp
    with g show ?thesis by blast
  qed
  show ?thesis
    by (rule conjI [OF 1 conjI [OF 2 conjI [OF 3 conjI [OF 4 conjI [OF 5 6]]]]])
qed

text \<open>
  C4. The builder returns a card on every record of the data model, and whenever it
  returns a card for a record, the status line and its colour depend on the truthiness
  of the in-force field alone: a truthy value gives \<open>In Force\<close> in colour \<open>good\<close>; a
  falsy value, or no value at all, gives \<open>Not In Force\<close> in colour \<open>attention\<close>.
\<close>

theorem force_status_by_truthiness:
  "(record_ok kvs \<longrightarrow> (\<exists>d. generate_adaptive_card (JDict kvs) = Inr d))
   \<and> (generate_adaptive_card (JDict kvs) = Inr doc \<longrightarrow>
        (map_of kvs ''is_in_force'' = Some v \<and> truthy v \<longrightarrow>
           lookup doc force_status_path = Some (JStr ''Status: In Force'')
           \<and> lookup doc force_color_path = Some (JStr ''good''))
      \<and> (map_of kvs ''is_in_force'' = Some v \<and> \<not> truthy v \<longrightarrow>
           lookup doc force_status_path = Some (JStr ''Status: Not In Force'')
           \<and> lookup doc force_color_path = Some (JStr ''attention''))
      \<and> (map_of kvs ''is_in_force'' = None \<longrightarrow>
           lookup doc force_status_path = Some (JStr ''Status: Not In Force'')
           \<and> lookup doc force_color_path = Some (JStr ''attention'')))"
proof -
  have total: "record_ok kvs \<longrightarrow> (\<exists>d. generate_adaptive_card (JDict kvs) = Inr d)"
    using record_ok_builds [of kvs] by blast
  have force: "generate_adaptive_card (JDict kvs) = Inr doc \<longrightarrow>
        (map_of kvs ''is_in_force'' = Some v \<and> truthy v \<longrightarrow>
           lookup doc force_status_path = Some (JStr ''Status: In Force'')
           \<and> lookup doc force_color_path = Some (JStr ''good''))
      \<and> (map_of kvs ''is_in_force'' = Some v \<and> \<not> truthy v \<longrightarrow>
           lookup doc force_status_path = Some (JStr ''Status: Not In Force'')
           \<and> lookup doc force_color_path = Some (JStr ''attention''))
      \<and> (map_of kvs ''is_in_force'' = None \<longrightarrow>
           lookup doc force_status_path = Some (JStr ''Status: Not In Force'')
           \<and> lookup doc force_color_path = Some (JStr ''attention''))"
  proof
    assume "generate_adaptive_card (JDict kvs) = Inr doc"
    then obtain sc t u e it mc il dt np ns di da where
      doc: "doc = message (card t u e sc
             (if truthy (dict_get kvs ''is_in_force'' (JInt 0)) then ''In Force''
              else ''Not In Force'')
             (if truthy (dict_get kvs ''is_in_force'' (JInt 0)) then ''good'' else ''attention'')
             it mc il dt np ns di da)"
      unfolding builder_returns_iff by blast
    show "(map_of kvs ''is_in_force'' = Some v \<and> truthy v \<longrightarrow>
           lookup doc force_status_path = Some (JStr ''Status: In Force'')
           \<and> lookup doc force_color_path = Some (JStr ''good''))
      \<and> (map_of kvs ''is_in_force'' = Some v \<and> \<not> truthy v \<longrightarrow>
           lookup doc force_status_path = Some (JStr ''Status: Not In Force'')
           \<and> lookup doc force_color_path = Some (JStr ''attention''))
      \<and> (map_of kvs ''is_in_force'' = None \<longrightarrow>
           lookup doc force_status_path = Some (JStr ''Status: Not In Force'')
           \<and> lookup doc force_color_path = Some (JStr ''attention''))"
      unfolding doc lookup_force_status lookup_force_color
      by (auto simp add: dict_get_def)
  qed
  show ?thesis by (rule conjI [OF total force])
qed

theorem force_status_by_truthiness_witness:
  "(\<exists>doc. generate_adaptive_card (JDict [(''is_in_force'', JBool True)]) = Inr doc
      \<and> lookup doc force_status_path = Some (JStr ''Status: In Force'')
      \<and> lookup doc force_color_path = Some (JStr ''good''))
   \<and> (\<exists>doc. generate_adaptive_card (JDict [(''is_in_force'', JInt 1)]) = Inr doc
      \<and> lookup doc force_status_path = Some (JStr ''Status: In Force'')
      \<and> lookup doc force_color_path = Some (JStr ''good''))
   \<and> (\<exists>doc. generate_adaptive_card (JDict [(''is_in_force'', JInt 0)]) = Inr doc
      \<and> lookup doc force_status_path = Some (JStr ''Status: Not In Force'')
      \<and> lookup doc force_color_path = Some (JStr ''attention''))
   \<and> (\<exists>doc. generate_adaptive_card (JDict [(''is_in_force'', JNull)]) = Inr doc
      \<and> lookup doc force_status_path = Some (JStr ''Status: Not In Force'')
      \<and> lookup doc force_color_path = Some (JStr ''attention''))
   \<and> (\<exists>doc. generate_adaptive_card (JDict []) = Inr doc
      \<and> lookup doc force_status_path = Some (JStr ''Status: Not In Force'')
      \<and> lookup doc force_color_path = Some (JStr ''attention''))"
proof -
  have 1: "\<exists>doc. generate_adaptive_card (JDict [(''is_in_force'', JBool True)]) = Inr doc
      \<and> lookup doc force_status_path = Some (JStr ''Status: In Force'')
      \<and> lookup doc force_color_path = Some (JStr ''good'')"
  proof -
    have "record_ok [(''is_in_force'', JBool True)]"
      by (simp add: record_ok_def dict_get_def)
    then obtain doc where g: "generate_adaptive_card (JDict [(''is_in_force'', JBool True)]) = Inr doc"
      using force_status_by_truthiness [where kvs = "[(''is_in_force'', JBool True)]"] by blast
    have "lookup doc force_status_path = Some (JStr ''Status: In Force'')
      \<and> lookup doc force_color_path = Some (JStr ''good'')"
      using force_status_by_truthiness [where kvs = "[(''is_in_force'', JBool True)]" and doc = doc and v = "JBool True"] g by simp
    with g show ?thesis by blast
  qed
  have 2: "\<exists>doc. generate_adaptive_card (JDict [(''is_in_force'', JInt 1)]) = Inr doc
      \<and> lookup doc force_status_path = Some (JStr ''Status: In Force'')
      \<and> lookup doc force_color_path = Some (JStr ''good'')"
  proof -
    have "record_ok [(''is_in_force'', JInt 1)]"
      by (simp add: record_ok_def dict_get_def)
    then obtain doc where g: "generate_adaptive_card (JDict [(''is_in_force'', JInt 1)]) = Inr doc"
      using force_status_by_truthiness [where kvs = "[(''is_in_force'', JInt 1)]"] by blast
    have "lookup doc force_status_path = Some (JStr ''Status: In Force'')
      \<and> lookup doc force_color_path = Some (JStr ''good'')"
      using force_status_by_truthiness [where kvs = "[(''is_in_force'', JInt 1)]" and doc = doc and v = "JInt 1"] g by simp
    with g show ?thesis by blast
  qed
  have 3: "\<exists>doc. generate_adaptive_card (JDict [(''is_in_force'', JInt 0)]) = Inr doc
      \<and> lookup doc force_status_path = Some (JStr ''Status: Not In Force'')
      \<and> lookup doc force_color_path = Some (JStr ''attention'')"
  proof -
    have "record_ok [(''is_in_force'', JInt 0)]"
      by (simp add: record_ok_def dict_get_def)
    then obtain doc where g: "generate_adaptive_card (JDict [(''is_in_force'', JInt 0)]) = Inr doc"
      using force_status_by_truthiness [where kvs = "[(''is_in_force'', JInt 0)]"] by blast
    have "lookup doc force_status_path = Some (JStr ''Status: Not In Force'')
      \<and> lookup doc force_color_path = Some (JStr ''attention'')"
      using force_status_by_truthiness [where kvs = "[(''is_in_force'', JInt 0)]" and doc = doc and v = "JInt 0"] g by simp
    with g show ?thesis by blast
  qed
  have 4: "\<exists>doc. generate_adaptive_card (JDict [(''is_in_force'', JNull)]) = Inr doc
      \<and> lookup doc force_status_path = Some (JStr ''Status: Not In Force'')
      \<and> lookup doc force_color_path = Some (JStr ''attention'')"
  proof -
    have "record_ok [(''is_in_force'', JNull)]"
      by (simp add: record_ok_def dict_get_def)
    then obtain doc where g: "generate_adaptive_card (JDict [(''is_in_force'', JNull)]) = Inr doc"
      using force_status_by_truthiness [where kvs = "[(''is_in_force'', JNull)]"] by blast
    have "lookup doc force_status_path = Some (JStr ''Status: Not In Force'')
      \<and> lookup doc force_color_path = Some (JStr ''attention'')"
      using force_status_by_truthiness [where kvs = "[(''is_in_force'', JNull)]" and doc = doc and v = "JNull"] g by simp
    with g show ?thesis by blast
  qed
  have 5: "\<exists>doc. generate_adaptive_card (JDict []) = Inr doc
      \<and> lookup doc force_status_path = Some (JStr ''Status: Not In Force'')
      \<and> lookup doc force_color_path = Some (JStr ''attention'')"
  proof -
    have "record_ok []"
      by (simp add: record_ok_def dict_get_def)
    then obtain doc where g: "generate_adaptive_card (JDict []) = Inr doc"
      using force_status_by_truthiness [where kvs = "[]"] by blast
    have "lookup doc force_status_path = Some (JStr ''Status: Not In Force'')
      \<and> lookup doc force_color_path = Some (JStr ''attention'')"
      using force_status_by_truthiness [where kvs = "[]" and doc = doc and v = "JNull"] g by simp
    with g show ?thesis by blast
  qed
  show ?thesis
    by (rule conjI [OF 1 conjI [OF 2 conjI [OF 3 conjI [OF 4 5]]]])
qed

end
